theory Spec2Isabelle
  imports Main
begin

section \<open>Configuration records (cmd/internal/config/config.go)\<close>

text \<open>
  The two structs of the package. Go strings are byte strings (\<open>string\<close>); the integer
  fields (\<open>int\<close>, \<open>int64\<close>) are only ever compared with constants and overwritten by
  constants, never combined arithmetically, so they are modelled as \<open>int\<close> and no
  wrap-around can arise. The pointer field \<open>StorageProvider *StorageProvider\<close> is an
  option: \<open>None\<close> is the nil pointer.
\<close>

record StorageProvider =
  B2AcctId :: string
  B2AppKey :: string
  B2Bucket :: string
  B2Url :: string
  S3AppId :: string
  S3AppKey :: string
  S3Bucket :: string
  S3Url :: string
  S3Region :: string
  Retry :: int

record Client =
  DataDir :: string
  StorageProvider :: "StorageProvider option"
  MaxWALSize :: int
  CacheSize :: int
  Password :: string
  NumPtrs :: int
  DataSize :: int

section \<open>The storage layers built by the collaborating packages\<close>

text \<open>
  The constructors of package \<open>persistent\<close> and \<open>utahfs.NewBlockFilesystem\<close> are called
  by this package but defined elsewhere. A value they return is represented by the
  constructor applied and the arguments it was given, so a composed handle is the term
  of its wrappings. The Go types are kept apart as the signatures used in \<open>FS\<close> and
  \<open>Store\<close> keep them apart. \<open>NilStorage\<close> is the nil value of the interface
  \<open>persistent.ObjectStorage\<close>, with which \<open>Store\<close> declares its variable \<open>out\<close>.
\<close>

datatype object_storage =
    NilStorage
  | B2 string string string string
  | S3 string string string string string
  | Retried object_storage int

datatype reliable_storage =
    LocalWAL object_storage string int
  | Cache reliable_storage int

datatype buffered_storage = BufferedStorage reliable_storage

datatype block_storage =
    SimpleBlock buffered_storage
  | Integrity block_storage string string
  | Encryption block_storage string

datatype app_storage = AppStorage block_storage

datatype block_filesystem = BlockFilesystem app_storage int int

text \<open>
  Every invocation of a collaborator's constructor, with its arguments. The calls a run
  makes are recorded in order, so that what has been attempted before a failure can be
  stated.
\<close>

datatype call =
    CallNewB2 string string string string
  | CallNewS3 string string string string string
  | CallNewRetry object_storage int
  | CallNewLocalWAL object_storage string int
  | CallNewCache reliable_storage int
  | CallNewBufferedStorage reliable_storage
  | CallNewSimpleBlock buffered_storage
  | CallWithIntegrity block_storage string string
  | CallWithEncryption block_storage string
  | CallNewAppStorage block_storage
  | CallNewBlockFilesystem app_storage int int

text \<open>
  The errors. The three that this package creates itself with \<open>fmt.Errorf\<close> are named
  after the specification's taxonomy:
  \<^item> \<open>NoProviderConfigured\<close>: "no object storage provider defined";
  \<^item> \<open>AmbiguousProvider\<close>: "only one object storage provider may be defined";
  \<^item> \<open>MissingCredential\<close>: "no password given for encryption".
  \<open>External\<close> is an error value handed back by a collaborator (a constructor, the file
  read, the YAML parser), which this package returns as it is.
\<close>

datatype error =
    NoProviderConfigured
  | AmbiguousProvider
  | MissingCredential
  | External string

text \<open>
  The collaborators are a parameter: \<open>ext k\<close> is \<open>Some msg\<close> when the constructor call
  \<open>k\<close> returns the error \<open>msg\<close>, and \<open>None\<close> when it returns its value.
\<close>

type_synonym externals = "call \<Rightarrow> string option"

definition invoke :: "externals \<Rightarrow> call \<Rightarrow> 'a \<Rightarrow> error + 'a" where
  "invoke ext k v = (case ext k of Some msg \<Rightarrow> Inl (External msg) | None \<Rightarrow> Inr v)"

section \<open>Package \<open>path\<close> of the Go standard library\<close>

text \<open>
  \<open>FS\<close> derives its file names with \<open>path.Join\<close> and \<open>path.Dir\<close>. They are not part of
  this repository; they are written out here after the library's algorithm, so that the
  model computes the real names. \<open>Clean\<close> writes into a buffer \<open>out\<close>, whose length is the
  library's write index \<open>out.w\<close>, and reads \<open>path\<close> at index \<open>r\<close>.
\<close>

text \<open>
  The "\<open>..\<close>" case backs up: \<open>out.w--\<close>, then
  \<open>for out.w > dotdot && out.index(out.w) != '/' { out.w-- }\<close>; the byte at the new
  \<open>out.w\<close> is the one just dropped. The library backs up only when \<open>out.w > dotdot\<close>,
  so the buffer is not empty there; the first branch only makes the function total.
\<close>

function backtrack :: "nat \<Rightarrow> string \<Rightarrow> string" where
  "backtrack dotdot out =
     (if out = [] then []
      else if dotdot < length (butlast out) \<and> last out \<noteq> CHR ''/''
        then backtrack dotdot (butlast out)
        else butlast out)"
  by pat_completeness auto
termination
  by (relation "measure (\<lambda>(dotdot, out). length out)") auto

function clean_loop :: "string \<Rightarrow> bool \<Rightarrow> nat \<Rightarrow> string \<Rightarrow> nat \<Rightarrow> string" where
  "clean_loop path rooted r out dotdot =
     (if \<not> r < length path then out
      else if path ! r = CHR ''/'' then
        clean_loop path rooted (r + 1) out dotdot
      else if path ! r = CHR ''.'' \<and> (r + 1 = length path \<or> path ! (r + 1) = CHR ''/'') then
        clean_loop path rooted (r + 1) out dotdot
      else if path ! r = CHR ''.'' \<and> path ! (r + 1) = CHR ''.''
              \<and> (r + 2 = length path \<or> path ! (r + 2) = CHR ''/'') then
        (if dotdot < length out then
           clean_loop path rooted (r + 2) (backtrack dotdot out) dotdot
         else if \<not> rooted then
           (let out2 = (if 0 < length out then out @ ''/'' else out) @ ''..''
            in clean_loop path rooted (r + 2) out2 (length out2))
         else clean_loop path rooted (r + 2) out dotdot)
      else
        (let out1 = (if rooted \<and> length out \<noteq> 1 \<or> \<not> rooted \<and> length out \<noteq> 0
                     then out @ ''/'' else out);
             elem = takeWhile (\<lambda>b. b \<noteq> CHR ''/'') (drop r path)
         in clean_loop path rooted (r + length elem) (out1 @ elem) dotdot))"
  by pat_completeness auto
termination
proof (relation "measure (\<lambda>(path, rooted, r, out, dotdot). length path - r)", goal_cases)
  case 1
  show ?case by simp
next
  case (7 path rooted r out dotdot out1 elem)
  from 7 have "r < length path" and "path ! r \<noteq> CHR ''/''" by simp_all
  then have "drop r path = path ! r # drop (Suc r) path"
    by (simp add: Cons_nth_drop_Suc)
  with \<open>path ! r \<noteq> CHR ''/''\<close> 7 have "0 < length elem" by simp
  with \<open>r < length path\<close> have "length path - (r + length elem) < length path - r"
    by arith
  then show ?case by simp
qed auto

definition Clean :: "string \<Rightarrow> string" where
  "Clean path =
     (if path = [] then ''.''
      else
        (let rooted = (path ! 0 = CHR ''/'');
             out = (if rooted then clean_loop path rooted 1 ''/'' 1
                    else clean_loop path rooted 0 [] 0)
         in if length out = 0 then ''.'' else out))"

text \<open>\<open>strings.LastIndexByte(path, '/')\<close>, as the index plus one (0 when there is none).\<close>

fun after_last_slash :: "string \<Rightarrow> nat" where
  "after_last_slash [] = 0"
| "after_last_slash (b # bs) =
     (if CHR ''/'' \<in> set bs then Suc (after_last_slash bs)
      else if b = CHR ''/'' then 1 else 0)"

definition Split :: "string \<Rightarrow> string \<times> string" where
  "Split path = (let i = after_last_slash path in (take i path, drop i path))"

definition Dir :: "string \<Rightarrow> string" where
  "Dir path = Clean (fst (Split path))"

text \<open>
  \<open>Join\<close> drops leading empty elements, joins the rest with "/" and cleans the result;
  with no non-empty element it returns the empty string.
\<close>

fun join_with_slash :: "string list \<Rightarrow> string" where
  "join_with_slash [] = []"
| "join_with_slash [e] = e"
| "join_with_slash (e # es) = e @ ''/'' @ join_with_slash es"

fun Join :: "string list \<Rightarrow> string" where
  "Join [] = []"
| "Join (e # es) = (if e \<noteq> [] then Clean (join_with_slash (e # es)) else Join es)"

section \<open>Reading the configuration file\<close>

text \<open>
  \<open>ClientFromFile\<close> reads the file, unmarshals it into a zero-valued \<open>Client\<close> and returns
  the result. \<open>ioutil.ReadFile\<close> and \<open>yaml.Unmarshal\<close> are parameters: each returns an
  error message or its value.
\<close>

definition zero_StorageProvider :: StorageProvider where
  "zero_StorageProvider =
     \<lparr>B2AcctId = [], B2AppKey = [], B2Bucket = [], B2Url = [],
      S3AppId = [], S3AppKey = [], S3Bucket = [], S3Url = [], S3Region = [], Retry = 0\<rparr>"

definition zero_Client :: Client where
  "zero_Client =
     \<lparr>DataDir = [], StorageProvider = None, MaxWALSize = 0, CacheSize = 0,
      Password = [], NumPtrs = 0, DataSize = 0\<rparr>"

definition ClientFromFile ::
  "(string \<Rightarrow> string + string) \<Rightarrow> (string \<Rightarrow> Client \<Rightarrow> string + Client) \<Rightarrow> string
     \<Rightarrow> error + Client" where
  "ClientFromFile ReadFile Unmarshal path =
     (case ReadFile path of
        Inl err \<Rightarrow> Inl (External err)
      | Inr raw \<Rightarrow>
          (case Unmarshal raw zero_Client of
             Inl err \<Rightarrow> Inl (External err)
           | Inr parsed \<Rightarrow> Inr parsed))"

section \<open>Selecting the backend: \<open>StorageProvider.Store\<close>\<close>

definition hasB2 :: "StorageProvider \<Rightarrow> bool" where
  "hasB2 sp \<longleftrightarrow> B2AcctId sp \<noteq> [] \<or> B2AppKey sp \<noteq> [] \<or> B2Bucket sp \<noteq> [] \<or> B2Url sp \<noteq> []"

definition hasS3 :: "StorageProvider \<Rightarrow> bool" where
  "hasS3 sp \<longleftrightarrow>
     S3AppId sp \<noteq> [] \<or> S3AppKey sp \<noteq> [] \<or> S3Bucket sp \<noteq> [] \<or> S3Url sp \<noteq> []
       \<or> S3Region sp \<noteq> []"

text \<open>
  \<open>Store\<close> returns its result and the constructor calls it made. The receiver may be nil.
  After the two guards the code connects with \<open>if sp.hasB2() {...} else if sp.hasS3() {...}\<close>,
  leaving \<open>out\<close> and \<open>err\<close> nil if neither held.
\<close>

definition Store ::
  "externals \<Rightarrow> StorageProvider option \<Rightarrow> (error + object_storage) \<times> call list" where
  "Store ext spo =
     (case spo of
        None \<Rightarrow> (Inl NoProviderConfigured, [])
      | Some sp \<Rightarrow>
          if \<not> hasB2 sp \<and> \<not> hasS3 sp then (Inl NoProviderConfigured, [])
          else if hasB2 sp \<and> hasS3 sp then (Inl AmbiguousProvider, [])
          else
            (let (connected, calls) =
                   (if hasB2 sp then
                      (let k = CallNewB2 (B2AcctId sp) (B2AppKey sp) (B2Bucket sp) (B2Url sp)
                       in (invoke ext k
                             (B2 (B2AcctId sp) (B2AppKey sp) (B2Bucket sp) (B2Url sp)), [k]))
                    else if hasS3 sp then
                      (let k = CallNewS3 (S3AppId sp) (S3AppKey sp) (S3Bucket sp) (S3Url sp)
                                 (S3Region sp)
                       in (invoke ext k
                             (S3 (S3AppId sp) (S3AppKey sp) (S3Bucket sp) (S3Url sp)
                                (S3Region sp)), [k]))
                    else (Inr NilStorage, []))
             in case connected of
                  Inl err \<Rightarrow> (Inl err, calls)
                | Inr out \<Rightarrow>
                    if 1 < Retry sp then
                      (let k = CallNewRetry out (Retry sp)
                       in (invoke ext k (Retried out (Retry sp)), calls @ [k]))
                    else (Inr out, calls)))"

section \<open>Composing the filesystem: \<open>Client.FS\<close>\<close>

text \<open>
  \<open>FS\<close> has a pointer receiver and assigns to the fields of \<open>c\<close> as it goes, so the model
  returns the configuration record as the call leaves it, together with the result
  (the error, or the handle) and the constructor calls made, in order. The steps are
  those of the source, top to bottom: data directory (lines 40-42), object storage
  (44-48), WAL (50-57), cache (59-68), buffer and block framer (70-72), password test
  (75-77), integrity (78-81), encryption (82-85), application storage (88), pointer
  count and data size (91-96), filesystem (97-102). Every \<open>return nil, err\<close> is an
  outcome whose result is \<open>Inl\<close>; \<open>NewBufferedStorage\<close>, \<open>NewSimpleBlock\<close> and
  \<open>NewAppStorage\<close> return no error.
\<close>

record FS_outcome =
  fs_result :: "error + block_filesystem"
  fs_config :: Client
  fs_calls :: "call list"

text \<open>
  The five assignments of defaults that \<open>FS\<close> makes, each where the code has it:
  \<open>if c.DataDir == "" { c.DataDir = path.Join(path.Dir(mountPath), ".utahfs") }\<close>,
  \<open>if c.MaxWALSize == 0 { c.MaxWALSize = 64 * 512 }\<close>,
  \<open>if c.CacheSize == 0 { c.CacheSize = 32 * 1024 }\<close>,
  \<open>if c.NumPtrs == 0 { c.NumPtrs = 12 }\<close> and
  \<open>if c.DataSize == 0 { c.DataSize = 32 * 1024 }\<close>.
\<close>

definition default_DataDir :: "Client \<Rightarrow> string \<Rightarrow> Client" where
  "default_DataDir c mountPath =
     (if DataDir c = [] then c\<lparr>DataDir := Join [Dir mountPath, ''.utahfs'']\<rparr> else c)"

definition default_MaxWALSize :: "Client \<Rightarrow> Client" where
  "default_MaxWALSize c = (if MaxWALSize c = 0 then c\<lparr>MaxWALSize := 64 * 512\<rparr> else c)"

definition default_CacheSize :: "Client \<Rightarrow> Client" where
  "default_CacheSize c = (if CacheSize c = 0 then c\<lparr>CacheSize := 32 * 1024\<rparr> else c)"

definition default_NumPtrs :: "Client \<Rightarrow> Client" where
  "default_NumPtrs c = (if NumPtrs c = 0 then c\<lparr>NumPtrs := 12\<rparr> else c)"

definition default_DataSize :: "Client \<Rightarrow> Client" where
  "default_DataSize c = (if DataSize c = 0 then c\<lparr>DataSize := 32 * 1024\<rparr> else c)"

definition FS :: "externals \<Rightarrow> Client \<Rightarrow> string \<Rightarrow> FS_outcome" where
  "FS ext c0 mountPath =
     (let c1 = default_DataDir c0 mountPath;
          (stored, t1) = Store ext (StorageProvider c1)
      in case stored of
           Inl err \<Rightarrow> \<lparr>fs_result = Inl err, fs_config = c1, fs_calls = t1\<rparr>
         | Inr store \<Rightarrow>
     (let c2 = default_MaxWALSize c1;
          kwal = CallNewLocalWAL store (Join [DataDir c2, ''wal'']) (MaxWALSize c2);
          t2 = t1 @ [kwal]
      in case invoke ext kwal (LocalWAL store (Join [DataDir c2, ''wal'']) (MaxWALSize c2)) of
           Inl err \<Rightarrow> \<lparr>fs_result = Inl err, fs_config = c2, fs_calls = t2\<rparr>
         | Inr walStore \<Rightarrow>
     (let c3 = default_CacheSize c2;
          (cached, t3) =
            (if CacheSize c3 \<noteq> - 1 then
               (let kcache = CallNewCache walStore (CacheSize c3)
                in (invoke ext kcache (Cache walStore (CacheSize c3)), t2 @ [kcache]))
             else (Inr walStore, t2))
      in case cached of
           Inl err \<Rightarrow> \<lparr>fs_result = Inl err, fs_config = c3, fs_calls = t3\<rparr>
         | Inr relStore \<Rightarrow>
     (let buffered = BufferedStorage relStore;
          block = SimpleBlock buffered;
          t4 = t3 @ [CallNewBufferedStorage relStore, CallNewSimpleBlock buffered]
      in if Password c3 = [] then
           \<lparr>fs_result = Inl MissingCredential, fs_config = c3, fs_calls = t4\<rparr>
         else
     (let kint = CallWithIntegrity block (Password c3) (Join [DataDir c3, ''pin.json'']);
          t5 = t4 @ [kint]
      in case invoke ext kint
                (Integrity block (Password c3) (Join [DataDir c3, ''pin.json''])) of
           Inl err \<Rightarrow> \<lparr>fs_result = Inl err, fs_config = c3, fs_calls = t5\<rparr>
         | Inr block1 \<Rightarrow>
     (let kenc = CallWithEncryption block1 (Password c3);
          t6 = t5 @ [kenc]
      in case invoke ext kenc (Encryption block1 (Password c3)) of
           Inl err \<Rightarrow> \<lparr>fs_result = Inl err, fs_config = c3, fs_calls = t6\<rparr>
         | Inr block2 \<Rightarrow>
     (let appStore = AppStorage block2;
          c5 = default_DataSize (default_NumPtrs c3);
          kfs = CallNewBlockFilesystem appStore (NumPtrs c5) (DataSize c5);
          t7 = t6 @ [CallNewAppStorage block2, kfs]
      in case invoke ext kfs (BlockFilesystem appStore (NumPtrs c5) (DataSize c5)) of
           Inl err \<Rightarrow> \<lparr>fs_result = Inl err, fs_config = c5, fs_calls = t7\<rparr>
         | Inr bfs \<Rightarrow> \<lparr>fs_result = Inr bfs, fs_config = c5, fs_calls = t7\<rparr>)))))))"

text \<open>All five defaults, in the order in which a complete run of \<open>FS\<close> applies them.\<close>

definition apply_defaults :: "Client \<Rightarrow> string \<Rightarrow> Client" where
  "apply_defaults c mountPath =
     default_DataSize (default_NumPtrs (default_CacheSize (default_MaxWALSize
       (default_DataDir c mountPath))))"

section \<open>Reading a composed handle\<close>

text \<open>
  The kinds of layer, and the chain of layers of a handle from the outermost (the
  filesystem) to the innermost (the backend). These are the vocabulary of the
  statements below, not functions of the program.
\<close>

datatype layer =
    FilesystemLayer | AppStorageLayer | EncryptionLayer | IntegrityLayer | BlockLayer
  | BufferingLayer | CacheLayer | WALLayer | RetryLayer | B2Layer | S3Layer

fun object_layers :: "object_storage \<Rightarrow> layer list" where
  "object_layers NilStorage = []"
| "object_layers (B2 acct key bucket url) = [B2Layer]"
| "object_layers (S3 app key bucket url region) = [S3Layer]"
| "object_layers (Retried base n) = RetryLayer # object_layers base"

fun reliable_layers :: "reliable_storage \<Rightarrow> layer list" where
  "reliable_layers (LocalWAL base loc n) = WALLayer # object_layers base"
| "reliable_layers (Cache base n) = CacheLayer # reliable_layers base"

fun buffered_layers :: "buffered_storage \<Rightarrow> layer list" where
  "buffered_layers (BufferedStorage base) = BufferingLayer # reliable_layers base"

fun block_layers :: "block_storage \<Rightarrow> layer list" where
  "block_layers (SimpleBlock base) = BlockLayer # buffered_layers base"
| "block_layers (Integrity base password pin) = IntegrityLayer # block_layers base"
| "block_layers (Encryption base password) = EncryptionLayer # block_layers base"

fun app_layers :: "app_storage \<Rightarrow> layer list" where
  "app_layers (AppStorage base) = AppStorageLayer # block_layers base"

fun layers :: "block_filesystem \<Rightarrow> layer list" where
  "layers (BlockFilesystem base numPtrs dataSize) = FilesystemLayer # app_layers base"

text \<open>Kinds of constructor call.\<close>

fun is_connect_call :: "call \<Rightarrow> bool" where
  "is_connect_call (CallNewB2 acct key bucket url) = True"
| "is_connect_call (CallNewS3 app key bucket url region) = True"
| "is_connect_call other = False"

fun is_retry_call :: "call \<Rightarrow> bool" where
  "is_retry_call (CallNewRetry base n) = True"
| "is_retry_call other = False"

fun is_cache_call :: "call \<Rightarrow> bool" where
  "is_cache_call (CallNewCache base n) = True"
| "is_cache_call other = False"

text \<open>The calls that build the layers above the block framer.\<close>

fun is_upper_call :: "call \<Rightarrow> bool" where
  "is_upper_call (CallWithIntegrity base password pin) = True"
| "is_upper_call (CallWithEncryption base password) = True"
| "is_upper_call (CallNewAppStorage base) = True"
| "is_upper_call (CallNewBlockFilesystem base numPtrs dataSize) = True"
| "is_upper_call other = False"

section \<open>What the layers do with a block\<close>

text \<open>
  Modelled from the spec: the content of a block as the layers exchange it. The
  implementations of the encryption and integrity wrappers (package \<open>persistent\<close>) are
  not in this source tree, so the content is symbolic: \<open>Plaintext x\<close> is application
  data, and \<open>Ciphertext key p\<close> is what the encryption layer makes of \<open>p\<close> under the key
  derived from \<open>key\<close> (section 4.9: "encrypts payloads before passing them down on write,
  decrypts on read, using a key derived from the password").
\<close>

datatype payload = Plaintext string | Ciphertext string payload

text \<open>
  Modelled from the spec: the two runtime failures of the security layers, which
  \<open>persistent\<close> would define: \<open>IntegrityViolation\<close> (section 4.8, digest mismatch on read) and
  \<open>DecryptionFailed\<close> (section 4.9, "if decryption itself fails, e.g., wrong password").
\<close>

datatype read_error = IntegrityViolation | DecryptionFailed

text \<open>
  Modelled from the spec: a write through the block store built by \<open>NewSimpleBlock\<close>,
  \<open>WithIntegrity\<close> and \<open>WithEncryption\<close>, none of which is in this source tree. Each layer
  is paired with the content it is handed. The encryption layer hands the encrypted
  content down (section 4.9); the integrity layer hands down what it was given
  (section 4.8: the digest is "over the bytes as they will physically reach the block
  framer"); the framer and the layers beneath it (buffering, cache, WAL, retry, backend:
  sections 4.3 to 4.7) store what they are given.
\<close>

fun block_write :: "block_storage \<Rightarrow> payload \<Rightarrow> (layer \<times> payload) list" where
  "block_write (SimpleBlock base) p = (BlockLayer, p) # map (\<lambda>l. (l, p)) (buffered_layers base)"
| "block_write (Integrity base password pin) p = (IntegrityLayer, p) # block_write base p"
| "block_write (Encryption base password) p =
     (EncryptionLayer, p) # block_write base (Ciphertext password p)"

text \<open>
  Modelled from the spec: the contents over which the integrity layers (\<open>WithIntegrity\<close>,
  not in this source tree) compute a digest during a write (section 4.8: "on every
  write, compute a tamper-evidence digest over the block's stored bytes").
\<close>

fun block_digested :: "block_storage \<Rightarrow> payload \<Rightarrow> payload list" where
  "block_digested (SimpleBlock base) p = []"
| "block_digested (Integrity base password pin) p = p # block_digested base p"
| "block_digested (Encryption base password) p = block_digested base (Ciphertext password p)"

text \<open>
  Modelled from the spec: decryption in the encryption layer (\<open>WithEncryption\<close>, not in
  this source tree), which succeeds on content encrypted under the same password and
  fails with \<open>DecryptionFailed\<close> otherwise (section 4.9).
\<close>

fun decrypt :: "string \<Rightarrow> payload \<Rightarrow> read_error + payload" where
  "decrypt password (Ciphertext key p) = (if key = password then Inr p else Inl DecryptionFailed)"
| "decrypt password (Plaintext x) = Inl DecryptionFailed"

text \<open>
  Modelled from the spec: what a layer of the block store (\<open>NewSimpleBlock\<close>,
  \<open>WithIntegrity\<close>, \<open>WithEncryption\<close>, not in this source tree) returns to the layer above
  on a read, when the framer holds \<open>stored\<close> and the pin store holds the digest of
  \<open>pinned\<close>. The integrity layer recomputes the digest over what it reads and fails with
  \<open>IntegrityViolation\<close> on a mismatch (section 4.8); the encryption layer decrypts what
  it reads (section 4.9). A digest is taken to identify its content.
\<close>

fun block_read :: "block_storage \<Rightarrow> payload \<Rightarrow> payload \<Rightarrow> read_error + payload" where
  "block_read (SimpleBlock base) stored pinned = Inr stored"
| "block_read (Integrity base password pin) stored pinned =
     (case block_read base stored pinned of
        Inl err \<Rightarrow> Inl err
      | Inr q \<Rightarrow> if q = pinned then Inr q else Inl IntegrityViolation)"
| "block_read (Encryption base password) stored pinned =
     (case block_read base stored pinned of
        Inl err \<Rightarrow> Inl err
      | Inr q \<Rightarrow> decrypt password q)"

text \<open>
  Modelled from the spec: a read through the block store (same missing constructors),
  each layer paired with what it returns to the layer above; the layers beneath the
  framer return what they store.
\<close>

fun block_reads ::
  "block_storage \<Rightarrow> payload \<Rightarrow> payload \<Rightarrow> (layer \<times> (read_error + payload)) list" where
  "block_reads (SimpleBlock base) stored pinned =
     (BlockLayer, Inr stored) # map (\<lambda>l. (l, Inr stored)) (buffered_layers base)"
| "block_reads (Integrity base password pin) stored pinned =
     (IntegrityLayer, block_read (Integrity base password pin) stored pinned)
       # block_reads base stored pinned"
| "block_reads (Encryption base password) stored pinned =
     (EncryptionLayer, block_read (Encryption base password) stored pinned)
       # block_reads base stored pinned"

text \<open>
  Modelled from the spec: a write through the whole handle. The filesystem
  (\<open>utahfs.NewBlockFilesystem\<close>) and the application storage (\<open>persistent.NewAppStorage\<close>),
  neither in this source tree, exchange a block's content with the block store as the
  application has it (sections 4.10 and 4.11).
\<close>

fun handle_write :: "block_filesystem \<Rightarrow> payload \<Rightarrow> (layer \<times> payload) list" where
  "handle_write (BlockFilesystem (AppStorage base) numPtrs dataSize) p =
     (FilesystemLayer, p) # (AppStorageLayer, p) # block_write base p"

text \<open>
  Modelled from the spec: the digests computed during a write through the whole handle
  (same missing constructors): those of its block store.
\<close>

fun handle_digested :: "block_filesystem \<Rightarrow> payload \<Rightarrow> payload list" where
  "handle_digested (BlockFilesystem (AppStorage base) numPtrs dataSize) p = block_digested base p"

text \<open>
  Modelled from the spec: a read through the whole handle (same missing constructors);
  the application storage and the filesystem return the content that the block store
  returns to them.
\<close>

fun handle_reads ::
  "block_filesystem \<Rightarrow> payload \<Rightarrow> payload \<Rightarrow> (layer \<times> (read_error + payload)) list" where
  "handle_reads (BlockFilesystem (AppStorage base) numPtrs dataSize) stored pinned =
     (FilesystemLayer, block_read base stored pinned)
       # (AppStorageLayer, block_read base stored pinned)
       # block_reads base stored pinned"

section \<open>Example configurations\<close>

text \<open>
  A provider record with B2 credentials only, and a complete client configuration that
  leaves the data directory and every sizing field unset.
\<close>

definition example_provider :: StorageProvider where
  "example_provider =
     zero_StorageProvider\<lparr>B2AcctId := ''acct'', B2AppKey := ''key'', B2Bucket := ''bucket''\<rparr>"

definition example_client :: Client where
  "example_client =
     zero_Client\<lparr>StorageProvider := Some example_provider, Password := ''secret''\<rparr>"

text \<open>Collaborators whose constructors all succeed.\<close>

definition all_succeed :: externals where
  "all_succeed = (\<lambda>k. None)"

text \<open>Collaborators among which only \<open>NewLocalWAL\<close> fails, and only \<open>NewRetry\<close> fails.\<close>

definition wal_unavailable :: externals where
  "wal_unavailable =
     (\<lambda>k. case k of CallNewLocalWAL base loc n \<Rightarrow> Some ''wal: permission denied''
              | _ \<Rightarrow> None)"

definition retry_unavailable :: externals where
  "retry_unavailable =
     (\<lambda>k. case k of CallNewRetry base n \<Rightarrow> Some ''retry: bad argument'' | _ \<Rightarrow> None)"

section \<open>The outcomes of a run\<close>

text \<open>\<open>Clean\<close> never returns the empty string, so the derived data directory is never empty.\<close>

lemma Clean_nonempty: "Clean p \<noteq> []"
  by (simp add: Clean_def Let_def)

lemma Join_default_nonempty: "Join [d, ''.utahfs''] \<noteq> []"
  by (simp add: Clean_nonempty)

lemma default_DataDir_fields [simp]:
  "StorageProvider (default_DataDir c mp) = StorageProvider c"
  "MaxWALSize (default_DataDir c mp) = MaxWALSize c"
  "CacheSize (default_DataDir c mp) = CacheSize c"
  "Password (default_DataDir c mp) = Password c"
  "NumPtrs (default_DataDir c mp) = NumPtrs c"
  "DataSize (default_DataDir c mp) = DataSize c"
  by (simp_all add: default_DataDir_def)

lemma default_DataDir_value:
  "DataDir (default_DataDir c mp) = (if DataDir c = [] then Join [Dir mp, ''.utahfs''] else DataDir c)"
  by (simp add: default_DataDir_def)

lemma default_MaxWALSize_fields [simp]:
  "StorageProvider (default_MaxWALSize c) = StorageProvider c"
  "DataDir (default_MaxWALSize c) = DataDir c"
  "CacheSize (default_MaxWALSize c) = CacheSize c"
  "Password (default_MaxWALSize c) = Password c"
  "NumPtrs (default_MaxWALSize c) = NumPtrs c"
  "DataSize (default_MaxWALSize c) = DataSize c"
  by (simp_all add: default_MaxWALSize_def)

lemma default_MaxWALSize_value:
  "MaxWALSize (default_MaxWALSize c) = (if MaxWALSize c = 0 then 64 * 512 else MaxWALSize c)"
  by (simp add: default_MaxWALSize_def)

lemma default_CacheSize_fields [simp]:
  "StorageProvider (default_CacheSize c) = StorageProvider c"
  "DataDir (default_CacheSize c) = DataDir c"
  "MaxWALSize (default_CacheSize c) = MaxWALSize c"
  "Password (default_CacheSize c) = Password c"
  "NumPtrs (default_CacheSize c) = NumPtrs c"
  "DataSize (default_CacheSize c) = DataSize c"
  by (simp_all add: default_CacheSize_def)

lemma default_CacheSize_value:
  "CacheSize (default_CacheSize c) = (if CacheSize c = 0 then 32 * 1024 else CacheSize c)"
  by (simp add: default_CacheSize_def)

lemma default_NumPtrs_fields [simp]:
  "StorageProvider (default_NumPtrs c) = StorageProvider c"
  "DataDir (default_NumPtrs c) = DataDir c"
  "MaxWALSize (default_NumPtrs c) = MaxWALSize c"
  "CacheSize (default_NumPtrs c) = CacheSize c"
  "Password (default_NumPtrs c) = Password c"
  "DataSize (default_NumPtrs c) = DataSize c"
  by (simp_all add: default_NumPtrs_def)

lemma default_NumPtrs_value:
  "NumPtrs (default_NumPtrs c) = (if NumPtrs c = 0 then 12 else NumPtrs c)"
  by (simp add: default_NumPtrs_def)

lemma default_DataSize_fields [simp]:
  "StorageProvider (default_DataSize c) = StorageProvider c"
  "DataDir (default_DataSize c) = DataDir c"
  "MaxWALSize (default_DataSize c) = MaxWALSize c"
  "CacheSize (default_DataSize c) = CacheSize c"
  "Password (default_DataSize c) = Password c"
  "NumPtrs (default_DataSize c) = NumPtrs c"
  by (simp_all add: default_DataSize_def)

lemma default_DataSize_value:
  "DataSize (default_DataSize c) = (if DataSize c = 0 then 32 * 1024 else DataSize c)"
  by (simp add: default_DataSize_def)

text \<open>
  A run of \<open>FS\<close> ends in one of eight ways, one for each \<open>return\<close> of the source. Each
  case records what the collaborators answered on the way and the outcome in full.
\<close>

lemma FS_outcomes:
  fixes ext :: externals and c :: Client and mp :: string
  defines "c1 \<equiv> default_DataDir c mp"
  defines "c2 \<equiv> default_MaxWALSize c1"
  defines "c3 \<equiv> default_CacheSize c2"
  defines "c5 \<equiv> default_DataSize (default_NumPtrs c3)"
  defines "wal \<equiv> \<lambda>store. LocalWAL store (Join [DataDir c1, ''wal'']) (MaxWALSize c2)"
  defines "kwal \<equiv> \<lambda>store. CallNewLocalWAL store (Join [DataDir c1, ''wal'']) (MaxWALSize c2)"
  defines "kcache \<equiv> \<lambda>store. CallNewCache (wal store) (CacheSize c3)"
  defines "rel \<equiv> \<lambda>store. if CacheSize c3 \<noteq> - 1 then Cache (wal store) (CacheSize c3)
                            else wal store"
  defines "blk \<equiv> \<lambda>store. SimpleBlock (BufferedStorage (rel store))"
  defines "lower \<equiv> \<lambda>store t. t @ [kwal store]
      @ (if CacheSize c3 \<noteq> - 1 then [kcache store] else [])
      @ [CallNewBufferedStorage (rel store), CallNewSimpleBlock (BufferedStorage (rel store))]"
  defines "pin \<equiv> Join [DataDir c1, ''pin.json'']"
  defines "kint \<equiv> \<lambda>store. CallWithIntegrity (blk store) (Password c) pin"
  defines "enc \<equiv> \<lambda>store. Encryption (Integrity (blk store) (Password c) pin) (Password c)"
  defines "kenc \<equiv> \<lambda>store. CallWithEncryption (Integrity (blk store) (Password c) pin) (Password c)"
  defines "kfs \<equiv> \<lambda>store. CallNewBlockFilesystem (AppStorage (enc store)) (NumPtrs c5) (DataSize c5)"
  obtains
    (store_failed) err t where
      "Store ext (StorageProvider c) = (Inl err, t)"
      "FS ext c mp = \<lparr>fs_result = Inl err, fs_config = c1, fs_calls = t\<rparr>"
  | (wal_failed) store t msg where
      "Store ext (StorageProvider c) = (Inr store, t)"
      "ext (kwal store) = Some msg"
      "FS ext c mp = \<lparr>fs_result = Inl (External msg), fs_config = c2,
         fs_calls = t @ [kwal store]\<rparr>"
  | (cache_failed) store t msg where
      "Store ext (StorageProvider c) = (Inr store, t)"
      "ext (kwal store) = None"
      "CacheSize c3 \<noteq> - 1"
      "ext (kcache store) = Some msg"
      "FS ext c mp = \<lparr>fs_result = Inl (External msg), fs_config = c3,
         fs_calls = t @ [kwal store, kcache store]\<rparr>"
  | (no_password) store t where
      "Store ext (StorageProvider c) = (Inr store, t)"
      "ext (kwal store) = None"
      "CacheSize c3 \<noteq> - 1 \<longrightarrow> ext (kcache store) = None"
      "Password c = []"
      "FS ext c mp = \<lparr>fs_result = Inl MissingCredential, fs_config = c3,
         fs_calls = lower store t\<rparr>"
  | (integrity_failed) store t msg where
      "Store ext (StorageProvider c) = (Inr store, t)"
      "ext (kwal store) = None"
      "CacheSize c3 \<noteq> - 1 \<longrightarrow> ext (kcache store) = None"
      "Password c \<noteq> []"
      "ext (kint store) = Some msg"
      "FS ext c mp = \<lparr>fs_result = Inl (External msg), fs_config = c3,
         fs_calls = lower store t @ [kint store]\<rparr>"
  | (encryption_failed) store t msg where
      "Store ext (StorageProvider c) = (Inr store, t)"
      "ext (kwal store) = None"
      "CacheSize c3 \<noteq> - 1 \<longrightarrow> ext (kcache store) = None"
      "Password c \<noteq> []"
      "ext (kint store) = None"
      "ext (kenc store) = Some msg"
      "FS ext c mp = \<lparr>fs_result = Inl (External msg), fs_config = c3,
         fs_calls = lower store t @ [kint store, kenc store]\<rparr>"
  | (filesystem_failed) store t msg where
      "Store ext (StorageProvider c) = (Inr store, t)"
      "ext (kwal store) = None"
      "CacheSize c3 \<noteq> - 1 \<longrightarrow> ext (kcache store) = None"
      "Password c \<noteq> []"
      "ext (kint store) = None"
      "ext (kenc store) = None"
      "ext (kfs store) = Some msg"
      "FS ext c mp = \<lparr>fs_result = Inl (External msg), fs_config = c5,
         fs_calls = lower store t
           @ [kint store, kenc store, CallNewAppStorage (enc store), kfs store]\<rparr>"
  | (composed) store t where
      "Store ext (StorageProvider c) = (Inr store, t)"
      "ext (kwal store) = None"
      "CacheSize c3 \<noteq> - 1 \<longrightarrow> ext (kcache store) = None"
      "Password c \<noteq> []"
      "ext (kint store) = None"
      "ext (kenc store) = None"
      "ext (kfs store) = None"
      "FS ext c mp =
         \<lparr>fs_result = Inr (BlockFilesystem (AppStorage (enc store)) (NumPtrs c5) (DataSize c5)),
          fs_config = c5,
          fs_calls = lower store t
            @ [kint store, kenc store, CallNewAppStorage (enc store), kfs store]\<rparr>"
proof -
  note defs = c1_def c2_def c3_def c5_def wal_def kwal_def kcache_def rel_def blk_def lower_def
    pin_def kint_def enc_def kenc_def kfs_def
  note unfold = FS_def invoke_def defs Let_def
  obtain stored t where st0: "Store ext (StorageProvider c) = (stored, t)"
    by (cases "Store ext (StorageProvider c)")
  show thesis
  proof (cases stored)
    case (Inl err)
    with st0 show thesis
      by (intro store_failed [of err t]) (simp_all add: unfold del: Join.simps)
  next
    case (Inr store)
    note st = st0 [unfolded Inr]
    show thesis
    proof (cases "ext (kwal store)")
      case (Some msg)
      with st have "FS ext c mp = \<lparr>fs_result = Inl (External msg), fs_config = c2,
          fs_calls = t @ [kwal store]\<rparr>"
        by (simp add: unfold del: Join.simps)
      with st Some show thesis
        by (intro wal_failed [of store t msg])
    next
      case None
      note w = None
      show thesis
      proof (cases "CacheSize c3 \<noteq> - 1 \<and> ext (kcache store) \<noteq> None")
        case True
        then obtain msg where on: "CacheSize c3 \<noteq> - 1" and cf: "ext (kcache store) = Some msg"
          by auto
        with st w have "FS ext c mp = \<lparr>fs_result = Inl (External msg), fs_config = c3,
            fs_calls = t @ [kwal store, kcache store]\<rparr>"
          by (simp add: unfold del: Join.simps)
        with st w on cf show thesis
          by (intro cache_failed [of store t msg])
      next
        case False
        then have cp: "CacheSize c3 \<noteq> - 1 \<longrightarrow> ext (kcache store) = None"
          by blast
        note low = st w cp
        show thesis
        proof (cases "Password c = []")
          case True
          with low have "FS ext c mp =
              \<lparr>fs_result = Inl MissingCredential, fs_config = c3, fs_calls = lower store t\<rparr>"
            by (cases "CacheSize c3 = - 1") (simp_all add: unfold del: Join.simps)
          with low True show thesis
            by (intro no_password [of store t])
        next
          case False
          note pw = False
          show thesis
          proof (cases "ext (kint store)")
            case (Some msg)
            with low pw have "FS ext c mp = \<lparr>fs_result = Inl (External msg), fs_config = c3,
                fs_calls = lower store t @ [kint store]\<rparr>"
              by (cases "CacheSize c3 = - 1") (simp_all add: unfold del: Join.simps)
            with low pw Some show thesis
              by (intro integrity_failed [of store t msg])
          next
            case None
            note i = None
            show thesis
            proof (cases "ext (kenc store)")
              case (Some msg)
              with low pw i have "FS ext c mp = \<lparr>fs_result = Inl (External msg), fs_config = c3,
                  fs_calls = lower store t @ [kint store, kenc store]\<rparr>"
                by (cases "CacheSize c3 = - 1") (simp_all add: unfold del: Join.simps)
              with low pw i Some show thesis
                by (intro encryption_failed [of store t msg])
            next
              case None
              note e = None
              show thesis
              proof (cases "ext (kfs store)")
                case (Some msg)
                with low pw i e have "FS ext c mp =
                    \<lparr>fs_result = Inl (External msg), fs_config = c5,
                     fs_calls = lower store t
                       @ [kint store, kenc store, CallNewAppStorage (enc store), kfs store]\<rparr>"
                  by (cases "CacheSize c3 = - 1") (simp_all add: unfold del: Join.simps)
                with low pw i e Some show thesis
                  by (intro filesystem_failed [of store t msg])
              next
                case None
                with low pw i e have "FS ext c mp =
                    \<lparr>fs_result =
                       Inr (BlockFilesystem (AppStorage (enc store)) (NumPtrs c5) (DataSize c5)),
                     fs_config = c5,
                     fs_calls = lower store t
                       @ [kint store, kenc store, CallNewAppStorage (enc store), kfs store]\<rparr>"
                  by (cases "CacheSize c3 = - 1") (simp_all add: unfold del: Join.simps)
                with low pw i e None show thesis
                  by (intro composed [of store t])
              qed
            qed
          qed
        qed
      qed
    qed
  qed
qed

text \<open>What \<open>Store\<close> can call and return.\<close>

lemma Store_calls_kind:
  "k \<in> set (snd (Store ext spo)) \<Longrightarrow> is_connect_call k \<or> is_retry_call k"
  by (auto simp: Store_def invoke_def Let_def split: option.splits if_splits)

lemma Store_calls_only:
  assumes "k \<in> set (snd (Store ext spo))"
  shows "\<not> is_upper_call k" and "\<not> is_cache_call k"
    and "k \<noteq> CallNewSimpleBlock b" and "k \<noteq> CallNewLocalWAL base loc n"
    and "k \<noteq> CallNewBufferedStorage r"
  using Store_calls_kind [OF assms] by (cases k; simp)+

lemma Store_returns_connected:
  "Store ext spo = (Inr out, t) \<Longrightarrow> \<exists>k \<in> set t. is_connect_call k"
  by (auto simp: Store_def invoke_def Let_def split: option.splits if_splits)

lemma Store_error_kind:
  "Store ext spo = (Inl err, t) \<Longrightarrow> err \<noteq> MissingCredential"
  by (auto simp: Store_def invoke_def Let_def split: option.splits if_splits)

text \<open>The layers below the buffering layer, and the shape of a successful run.\<close>

lemma object_layers_kind: "set (object_layers base) \<subseteq> {RetryLayer, B2Layer, S3Layer}"
  by (induction base) auto

lemma reliable_layers_kind:
  "set (reliable_layers base) \<subseteq> {CacheLayer, WALLayer, RetryLayer, B2Layer, S3Layer}"
  using object_layers_kind by (induction base) auto

lemma FS_composed:
  assumes "fs_result (FS ext c mp) = Inr h"
  obtains store t c' wal rel blk intg enc where
    "c' = apply_defaults c mp"
    "Store ext (StorageProvider c) = (Inr store, t)"
    "wal = LocalWAL store (Join [DataDir c', ''wal'']) (MaxWALSize c')"
    "rel = (if CacheSize c' \<noteq> - 1 then Cache wal (CacheSize c') else wal)"
    "blk = SimpleBlock (BufferedStorage rel)"
    "intg = Integrity blk (Password c) (Join [DataDir c', ''pin.json''])"
    "enc = Encryption intg (Password c)"
    "h = BlockFilesystem (AppStorage enc) (NumPtrs c') (DataSize c')"
    "fs_config (FS ext c mp) = c'"
    "fs_calls (FS ext c mp) =
       t @ [CallNewLocalWAL store (Join [DataDir c', ''wal'']) (MaxWALSize c')]
         @ (if CacheSize c' \<noteq> - 1 then [CallNewCache wal (CacheSize c')] else [])
         @ [CallNewBufferedStorage rel, CallNewSimpleBlock (BufferedStorage rel),
            CallWithIntegrity blk (Password c) (Join [DataDir c', ''pin.json'']),
            CallWithEncryption intg (Password c), CallNewAppStorage enc,
            CallNewBlockFilesystem (AppStorage enc) (NumPtrs c') (DataSize c')]"
    "Password c \<noteq> []"
proof (cases rule: FS_outcomes [of ext c mp])
  case (composed store t)
  define c' where "c' = apply_defaults c mp"
  define wal where "wal = LocalWAL store (Join [DataDir c', ''wal'']) (MaxWALSize c')"
  define rel where "rel = (if CacheSize c' \<noteq> - 1 then Cache wal (CacheSize c') else wal)"
  define blk where "blk = SimpleBlock (BufferedStorage rel)"
  define intg where "intg = Integrity blk (Password c) (Join [DataDir c', ''pin.json''])"
  define enc where "enc = Encryption intg (Password c)"
  note defs = c'_def apply_defaults_def wal_def rel_def blk_def intg_def enc_def
  have run: "FS ext c mp =
      \<lparr>fs_result = Inr (BlockFilesystem (AppStorage enc) (NumPtrs c') (DataSize c')),
       fs_config = c',
       fs_calls = t @ [CallNewLocalWAL store (Join [DataDir c', ''wal'']) (MaxWALSize c')]
         @ (if CacheSize c' \<noteq> - 1 then [CallNewCache wal (CacheSize c')] else [])
         @ [CallNewBufferedStorage rel, CallNewSimpleBlock (BufferedStorage rel),
            CallWithIntegrity blk (Password c) (Join [DataDir c', ''pin.json'']),
            CallWithEncryption intg (Password c), CallNewAppStorage enc,
            CallNewBlockFilesystem (AppStorage enc) (NumPtrs c') (DataSize c')]\<rparr>"
    unfolding composed(8)
    by (cases "CacheSize c' = - 1") (simp_all add: defs del: Join.simps)
  show thesis
  proof (rule that [of c' store t wal rel blk intg enc])
    show "h = BlockFilesystem (AppStorage enc) (NumPtrs c') (DataSize c')"
      using assms run by simp
    show "fs_config (FS ext c mp) = c'"
      using run by simp
    show "fs_calls (FS ext c mp) =
       t @ [CallNewLocalWAL store (Join [DataDir c', ''wal'']) (MaxWALSize c')]
         @ (if CacheSize c' \<noteq> - 1 then [CallNewCache wal (CacheSize c')] else [])
         @ [CallNewBufferedStorage rel, CallNewSimpleBlock (BufferedStorage rel),
            CallWithIntegrity blk (Password c) (Join [DataDir c', ''pin.json'']),
            CallWithEncryption intg (Password c), CallNewAppStorage enc,
            CallNewBlockFilesystem (AppStorage enc) (NumPtrs c') (DataSize c')]"
      using run by simp
  qed (fact c'_def composed(1) wal_def rel_def blk_def intg_def enc_def composed(4))+
qed (use assms in simp_all)

text \<open>Every constructor call of a run, with the arguments that come from the configuration.\<close>

lemma FS_calls_shape:
  assumes "k \<in> set (fs_calls (FS ext c mp))"
  defines "c' \<equiv> apply_defaults c mp"
  shows "k \<in> set (snd (Store ext (StorageProvider c)))
       \<or> (\<exists>store loc. k = CallNewLocalWAL store loc (MaxWALSize c'))
       \<or> (CacheSize c' \<noteq> - 1 \<and> (\<exists>w. k = CallNewCache w (CacheSize c')))
       \<or> (\<exists>r. k = CallNewBufferedStorage r)
       \<or> (\<exists>b. k = CallNewSimpleBlock b)
       \<or> (Password c \<noteq> [] \<and>
            ((\<exists>b pin. k = CallWithIntegrity b (Password c) pin)
             \<or> (\<exists>b. k = CallWithEncryption b (Password c))
             \<or> (\<exists>b. k = CallNewAppStorage b)
             \<or> (\<exists>a. k = CallNewBlockFilesystem a (NumPtrs c') (DataSize c'))))"
proof (cases rule: FS_outcomes [of ext c mp])
  case (store_failed err t)
  from assms(1) have "k \<in> set t" unfolding store_failed(2) by simp
  then show ?thesis using store_failed(1) by simp
next
  case (wal_failed store t msg)
  from assms(1) have "k \<in> set t \<or> k = CallNewLocalWAL store
      (Join [DataDir (default_DataDir c mp), ''wal'']) (MaxWALSize c')"
    unfolding wal_failed(3) c'_def apply_defaults_def by (auto simp del: Join.simps)
  then show ?thesis using wal_failed(1) by auto
next
  case (cache_failed store t msg)
  from assms(1) cache_failed(3) have "k \<in> set t
      \<or> k = CallNewLocalWAL store (Join [DataDir (default_DataDir c mp), ''wal'']) (MaxWALSize c')
      \<or> CacheSize c' \<noteq> - 1 \<and> k = CallNewCache (LocalWAL store
           (Join [DataDir (default_DataDir c mp), ''wal'']) (MaxWALSize c')) (CacheSize c')"
    unfolding cache_failed(5) c'_def apply_defaults_def by (auto simp del: Join.simps)
  then show ?thesis using cache_failed(1) by auto
next
  case (no_password store t)
  from assms(1) have "k \<in> set t
      \<or> k = CallNewLocalWAL store (Join [DataDir (default_DataDir c mp), ''wal'']) (MaxWALSize c')
      \<or> CacheSize c' \<noteq> - 1 \<and> k = CallNewCache (LocalWAL store
           (Join [DataDir (default_DataDir c mp), ''wal'']) (MaxWALSize c')) (CacheSize c')
      \<or> (\<exists>r. k = CallNewBufferedStorage r) \<or> (\<exists>b. k = CallNewSimpleBlock b)"
    unfolding no_password(5) c'_def apply_defaults_def
    by (auto simp del: Join.simps split: if_splits)
  then show ?thesis using no_password(1) by auto
next
  case (integrity_failed store t msg)
  from assms(1) have "k \<in> set t
      \<or> k = CallNewLocalWAL store (Join [DataDir (default_DataDir c mp), ''wal'']) (MaxWALSize c')
      \<or> CacheSize c' \<noteq> - 1 \<and> k = CallNewCache (LocalWAL store
           (Join [DataDir (default_DataDir c mp), ''wal'']) (MaxWALSize c')) (CacheSize c')
      \<or> (\<exists>r. k = CallNewBufferedStorage r) \<or> (\<exists>b. k = CallNewSimpleBlock b)
      \<or> (\<exists>b pin. k = CallWithIntegrity b (Password c) pin)"
    unfolding integrity_failed(6) c'_def apply_defaults_def
    by (auto simp del: Join.simps split: if_splits)
  then show ?thesis using integrity_failed(1,4) by auto
next
  case (encryption_failed store t msg)
  from assms(1) have "k \<in> set t
      \<or> k = CallNewLocalWAL store (Join [DataDir (default_DataDir c mp), ''wal'']) (MaxWALSize c')
      \<or> CacheSize c' \<noteq> - 1 \<and> k = CallNewCache (LocalWAL store
           (Join [DataDir (default_DataDir c mp), ''wal'']) (MaxWALSize c')) (CacheSize c')
      \<or> (\<exists>r. k = CallNewBufferedStorage r) \<or> (\<exists>b. k = CallNewSimpleBlock b)
      \<or> (\<exists>b pin. k = CallWithIntegrity b (Password c) pin)
      \<or> (\<exists>b. k = CallWithEncryption b (Password c))"
    unfolding encryption_failed(7) c'_def apply_defaults_def
    by (auto simp del: Join.simps split: if_splits)
  then show ?thesis using encryption_failed(1,4) by auto
next
  case (filesystem_failed store t msg)
  from assms(1) have "k \<in> set t
      \<or> k = CallNewLocalWAL store (Join [DataDir (default_DataDir c mp), ''wal'']) (MaxWALSize c')
      \<or> CacheSize c' \<noteq> - 1 \<and> k = CallNewCache (LocalWAL store
           (Join [DataDir (default_DataDir c mp), ''wal'']) (MaxWALSize c')) (CacheSize c')
      \<or> (\<exists>r. k = CallNewBufferedStorage r) \<or> (\<exists>b. k = CallNewSimpleBlock b)
      \<or> (\<exists>b pin. k = CallWithIntegrity b (Password c) pin)
      \<or> (\<exists>b. k = CallWithEncryption b (Password c))
      \<or> (\<exists>b. k = CallNewAppStorage b)
      \<or> (\<exists>a. k = CallNewBlockFilesystem a (NumPtrs c') (DataSize c'))"
    unfolding filesystem_failed(8) c'_def apply_defaults_def
    by (auto simp del: Join.simps split: if_splits)
  then show ?thesis using filesystem_failed(1,4) by auto
next
  case (composed store t)
  from assms(1) have "k \<in> set t
      \<or> k = CallNewLocalWAL store (Join [DataDir (default_DataDir c mp), ''wal'']) (MaxWALSize c')
      \<or> CacheSize c' \<noteq> - 1 \<and> k = CallNewCache (LocalWAL store
           (Join [DataDir (default_DataDir c mp), ''wal'']) (MaxWALSize c')) (CacheSize c')
      \<or> (\<exists>r. k = CallNewBufferedStorage r) \<or> (\<exists>b. k = CallNewSimpleBlock b)
      \<or> (\<exists>b pin. k = CallWithIntegrity b (Password c) pin)
      \<or> (\<exists>b. k = CallWithEncryption b (Password c))
      \<or> (\<exists>b. k = CallNewAppStorage b)
      \<or> (\<exists>a. k = CallNewBlockFilesystem a (NumPtrs c') (DataSize c'))"
    unfolding composed(8) c'_def apply_defaults_def
    by (auto simp del: Join.simps split: if_splits)
  then show ?thesis using composed(1,4) by auto
qed

lemma apply_defaults_fields:
  "StorageProvider (apply_defaults c mp) = StorageProvider c"
  "Password (apply_defaults c mp) = Password c"
  "DataDir (apply_defaults c mp) = (if DataDir c = [] then Join [Dir mp, ''.utahfs''] else DataDir c)"
  "MaxWALSize (apply_defaults c mp) = (if MaxWALSize c = 0 then 64 * 512 else MaxWALSize c)"
  "CacheSize (apply_defaults c mp) = (if CacheSize c = 0 then 32 * 1024 else CacheSize c)"
  "NumPtrs (apply_defaults c mp) = (if NumPtrs c = 0 then 12 else NumPtrs c)"
  "DataSize (apply_defaults c mp) = (if DataSize c = 0 then 32 * 1024 else DataSize c)"
  by (simp_all add: apply_defaults_def default_DataDir_value default_MaxWALSize_value
        default_CacheSize_value default_NumPtrs_value default_DataSize_value del: Join.simps)

text \<open>Defaults already applied are not applied again.\<close>

lemma DataDir_defaulted [simp]: "DataDir (default_DataDir c mp) \<noteq> []"
  using Join_default_nonempty by (simp add: default_DataDir_def del: Join.simps)

lemma MaxWALSize_defaulted [simp]: "MaxWALSize (default_MaxWALSize c) \<noteq> 0"
  by (simp add: default_MaxWALSize_def)

lemma CacheSize_defaulted [simp]: "CacheSize (default_CacheSize c) \<noteq> 0"
  by (simp add: default_CacheSize_def)

lemma NumPtrs_defaulted [simp]: "NumPtrs (default_NumPtrs c) \<noteq> 0"
  by (simp add: default_NumPtrs_def)

lemma DataSize_defaulted [simp]: "DataSize (default_DataSize c) \<noteq> 0"
  by (simp add: default_DataSize_def)

lemma default_fixed:
  "DataDir c \<noteq> [] \<Longrightarrow> default_DataDir c mp = c"
  "MaxWALSize c \<noteq> 0 \<Longrightarrow> default_MaxWALSize c = c"
  "CacheSize c \<noteq> 0 \<Longrightarrow> default_CacheSize c = c"
  "NumPtrs c \<noteq> 0 \<Longrightarrow> default_NumPtrs c = c"
  "DataSize c \<noteq> 0 \<Longrightarrow> default_DataSize c = c"
  by (simp_all add: default_DataDir_def default_MaxWALSize_def default_CacheSize_def
        default_NumPtrs_def default_DataSize_def)

lemma FS_config_stage:
  "fs_config (FS ext c mp) = default_DataDir c mp
   \<or> fs_config (FS ext c mp) = default_MaxWALSize (default_DataDir c mp)
   \<or> fs_config (FS ext c mp) = default_CacheSize (default_MaxWALSize (default_DataDir c mp))
   \<or> fs_config (FS ext c mp) = apply_defaults c mp"
  by (cases rule: FS_outcomes [of ext c mp]) (simp_all add: apply_defaults_def)

lemma apply_defaults_fixed:
  "default_DataDir (apply_defaults c mp) mp = apply_defaults c mp"
  "default_MaxWALSize (apply_defaults c mp) = apply_defaults c mp"
  "default_CacheSize (apply_defaults c mp) = apply_defaults c mp"
  "default_NumPtrs (apply_defaults c mp) = apply_defaults c mp"
  "default_DataSize (apply_defaults c mp) = apply_defaults c mp"
  by (simp_all add: default_fixed apply_defaults_def)

text \<open>
  With collaborators that behave the same, a second run on the record a first run left
  takes the same path and leaves the record as it is.
\<close>

lemma FS_config_idempotent:
  "fs_config (FS ext (fs_config (FS ext c mp)) mp) = fs_config (FS ext c mp)"
proof (cases rule: FS_outcomes [of ext c mp])
  case (store_failed err t)
  then show ?thesis
    by (simp add: FS_def Let_def default_fixed del: Join.simps)
next
  case (wal_failed store t msg)
  then show ?thesis
    by (simp add: FS_def Let_def invoke_def default_fixed del: Join.simps)
next
  case (cache_failed store t msg)
  then show ?thesis
    by (simp add: FS_def Let_def invoke_def default_fixed del: Join.simps)
next
  case (no_password store t)
  then show ?thesis
    by (cases "CacheSize (default_CacheSize (default_MaxWALSize (default_DataDir c mp))) = - 1")
      (simp_all add: FS_def Let_def invoke_def default_fixed del: Join.simps)
next
  case (integrity_failed store t msg)
  then show ?thesis
    by (cases "CacheSize (default_CacheSize (default_MaxWALSize (default_DataDir c mp))) = - 1")
      (simp_all add: FS_def Let_def invoke_def default_fixed del: Join.simps)
next
  case (encryption_failed store t msg)
  then show ?thesis
    by (cases "CacheSize (default_CacheSize (default_MaxWALSize (default_DataDir c mp))) = - 1")
      (simp_all add: FS_def Let_def invoke_def default_fixed del: Join.simps)
next
  case (filesystem_failed store t msg)
  then show ?thesis
    by (cases "CacheSize (default_CacheSize (default_MaxWALSize (default_DataDir c mp))) = - 1")
      (simp_all add: FS_def Let_def invoke_def default_fixed del: Join.simps)
next
  case (composed store t)
  then show ?thesis
    by (cases "CacheSize (default_CacheSize (default_MaxWALSize (default_DataDir c mp))) = - 1")
      (simp_all add: FS_def Let_def invoke_def default_fixed del: Join.simps)
qed

lemma Store_fails_only_if:
  assumes "Store ext (Some sp) = (Inl err, t)" and "\<forall>k. ext k = None"
  shows "hasB2 sp = hasS3 sp"
  using assms by (auto simp: Store_def invoke_def Let_def split: if_splits)

text \<open>
  The other direction: what the collaborators answer decides the outcome. The values
  passed to the constructors are fields of the fully defaulted record.
\<close>

lemma FS_table:
  fixes ext :: externals and c :: Client and mp :: string and store :: object_storage
  defines "c' \<equiv> apply_defaults c mp"
  defines "wal \<equiv> LocalWAL store (Join [DataDir c', ''wal'']) (MaxWALSize c')"
  defines "kwal \<equiv> CallNewLocalWAL store (Join [DataDir c', ''wal'']) (MaxWALSize c')"
  defines "kcache \<equiv> CallNewCache wal (CacheSize c')"
  defines "rel \<equiv> if CacheSize c \<noteq> - 1 then Cache wal (CacheSize c') else wal"
  defines "lower \<equiv> [kwal] @ (if CacheSize c \<noteq> - 1 then [kcache] else [])
      @ [CallNewBufferedStorage rel, CallNewSimpleBlock (BufferedStorage rel)]"
  defines "intg \<equiv> Integrity (SimpleBlock (BufferedStorage rel)) (Password c)
                     (Join [DataDir c', ''pin.json''])"
  defines "kint \<equiv> CallWithIntegrity (SimpleBlock (BufferedStorage rel)) (Password c)
                     (Join [DataDir c', ''pin.json''])"
  defines "kenc \<equiv> CallWithEncryption intg (Password c)"
  defines "app \<equiv> AppStorage (Encryption intg (Password c))"
  defines "kfs \<equiv> CallNewBlockFilesystem app (NumPtrs c') (DataSize c')"
  assumes st: "Store ext (StorageProvider c) = (Inr store, t)"
  shows "ext kwal = Some msg \<Longrightarrow>
           FS ext c mp = \<lparr>fs_result = Inl (External msg),
             fs_config = default_MaxWALSize (default_DataDir c mp), fs_calls = t @ [kwal]\<rparr>"
    and "ext kwal = None \<Longrightarrow> CacheSize c \<noteq> - 1 \<Longrightarrow> ext kcache = Some msg \<Longrightarrow>
           FS ext c mp = \<lparr>fs_result = Inl (External msg),
             fs_config = default_CacheSize (default_MaxWALSize (default_DataDir c mp)),
             fs_calls = t @ [kwal, kcache]\<rparr>"
    and "ext kwal = None \<Longrightarrow> CacheSize c = - 1 \<or> ext kcache = None \<Longrightarrow> Password c = [] \<Longrightarrow>
           FS ext c mp = \<lparr>fs_result = Inl MissingCredential,
             fs_config = default_CacheSize (default_MaxWALSize (default_DataDir c mp)),
             fs_calls = t @ lower\<rparr>"
    and "ext kwal = None \<Longrightarrow> CacheSize c = - 1 \<or> ext kcache = None \<Longrightarrow> Password c \<noteq> [] \<Longrightarrow>
         ext kint = Some msg \<Longrightarrow>
           FS ext c mp = \<lparr>fs_result = Inl (External msg),
             fs_config = default_CacheSize (default_MaxWALSize (default_DataDir c mp)),
             fs_calls = t @ lower @ [kint]\<rparr>"
    and "ext kwal = None \<Longrightarrow> CacheSize c = - 1 \<or> ext kcache = None \<Longrightarrow> Password c \<noteq> [] \<Longrightarrow>
         ext kint = None \<Longrightarrow> ext kenc = Some msg \<Longrightarrow>
           FS ext c mp = \<lparr>fs_result = Inl (External msg),
             fs_config = default_CacheSize (default_MaxWALSize (default_DataDir c mp)),
             fs_calls = t @ lower @ [kint, kenc]\<rparr>"
    and "ext kwal = None \<Longrightarrow> CacheSize c = - 1 \<or> ext kcache = None \<Longrightarrow> Password c \<noteq> [] \<Longrightarrow>
         ext kint = None \<Longrightarrow> ext kenc = None \<Longrightarrow> ext kfs = Some msg \<Longrightarrow>
           FS ext c mp = \<lparr>fs_result = Inl (External msg), fs_config = c',
             fs_calls = t @ lower
               @ [kint, kenc, CallNewAppStorage (Encryption intg (Password c)), kfs]\<rparr>"
    and "ext kwal = None \<Longrightarrow> CacheSize c = - 1 \<or> ext kcache = None \<Longrightarrow> Password c \<noteq> [] \<Longrightarrow>
         ext kint = None \<Longrightarrow> ext kenc = None \<Longrightarrow> ext kfs = None \<Longrightarrow>
           FS ext c mp = \<lparr>fs_result = Inr (BlockFilesystem app (NumPtrs c') (DataSize c')),
             fs_config = c',
             fs_calls = t @ lower
               @ [kint, kenc, CallNewAppStorage (Encryption intg (Password c)), kfs]\<rparr>"
proof -
  note defs = c'_def apply_defaults_def wal_def kwal_def kcache_def rel_def lower_def intg_def
    kint_def kenc_def app_def kfs_def
  note unfold = FS_def invoke_def Let_def defs
  have sentinel: "CacheSize (default_CacheSize (default_MaxWALSize (default_DataDir c mp))) = - 1
      \<longleftrightarrow> CacheSize c = - 1"
    by (simp add: default_CacheSize_value)
  show "ext kwal = Some msg \<Longrightarrow>
           FS ext c mp = \<lparr>fs_result = Inl (External msg),
             fs_config = default_MaxWALSize (default_DataDir c mp), fs_calls = t @ [kwal]\<rparr>"
    using st by (simp add: unfold del: Join.simps)
  show "ext kwal = None \<Longrightarrow> CacheSize c \<noteq> - 1 \<Longrightarrow> ext kcache = Some msg \<Longrightarrow>
           FS ext c mp = \<lparr>fs_result = Inl (External msg),
             fs_config = default_CacheSize (default_MaxWALSize (default_DataDir c mp)),
             fs_calls = t @ [kwal, kcache]\<rparr>"
    using st sentinel by (simp add: unfold del: Join.simps)
  show "ext kwal = None \<Longrightarrow> CacheSize c = - 1 \<or> ext kcache = None \<Longrightarrow> Password c = [] \<Longrightarrow>
           FS ext c mp = \<lparr>fs_result = Inl MissingCredential,
             fs_config = default_CacheSize (default_MaxWALSize (default_DataDir c mp)),
             fs_calls = t @ lower\<rparr>"
    using st sentinel by (cases "CacheSize c = - 1") (simp_all add: unfold del: Join.simps)
  show "ext kwal = None \<Longrightarrow> CacheSize c = - 1 \<or> ext kcache = None \<Longrightarrow> Password c \<noteq> [] \<Longrightarrow>
         ext kint = Some msg \<Longrightarrow>
           FS ext c mp = \<lparr>fs_result = Inl (External msg),
             fs_config = default_CacheSize (default_MaxWALSize (default_DataDir c mp)),
             fs_calls = t @ lower @ [kint]\<rparr>"
    using st sentinel by (cases "CacheSize c = - 1") (simp_all add: unfold del: Join.simps)
  show "ext kwal = None \<Longrightarrow> CacheSize c = - 1 \<or> ext kcache = None \<Longrightarrow> Password c \<noteq> [] \<Longrightarrow>
         ext kint = None \<Longrightarrow> ext kenc = Some msg \<Longrightarrow>
           FS ext c mp = \<lparr>fs_result = Inl (External msg),
             fs_config = default_CacheSize (default_MaxWALSize (default_DataDir c mp)),
             fs_calls = t @ lower @ [kint, kenc]\<rparr>"
    using st sentinel by (cases "CacheSize c = - 1") (simp_all add: unfold del: Join.simps)
  show "ext kwal = None \<Longrightarrow> CacheSize c = - 1 \<or> ext kcache = None \<Longrightarrow> Password c \<noteq> [] \<Longrightarrow>
         ext kint = None \<Longrightarrow> ext kenc = None \<Longrightarrow> ext kfs = Some msg \<Longrightarrow>
           FS ext c mp = \<lparr>fs_result = Inl (External msg), fs_config = c',
             fs_calls = t @ lower
               @ [kint, kenc, CallNewAppStorage (Encryption intg (Password c)), kfs]\<rparr>"
    using st sentinel by (cases "CacheSize c = - 1") (simp_all add: unfold del: Join.simps)
  show "ext kwal = None \<Longrightarrow> CacheSize c = - 1 \<or> ext kcache = None \<Longrightarrow> Password c \<noteq> [] \<Longrightarrow>
         ext kint = None \<Longrightarrow> ext kenc = None \<Longrightarrow> ext kfs = None \<Longrightarrow>
           FS ext c mp = \<lparr>fs_result = Inr (BlockFilesystem app (NumPtrs c') (DataSize c')),
             fs_config = c',
             fs_calls = t @ lower
               @ [kint, kenc, CallNewAppStorage (Encryption intg (Password c)), kfs]\<rparr>"
    using st sentinel by (cases "CacheSize c = - 1") (simp_all add: unfold del: Join.simps)
qed

lemma FS_table_store_fails:
  "Store ext (StorageProvider c) = (Inl err, t) \<Longrightarrow>
     FS ext c mp = \<lparr>fs_result = Inl err, fs_config = default_DataDir c mp, fs_calls = t\<rparr>"
  by (simp add: FS_def Let_def)

lemma Store_connects:
  assumes "hasB2 sp \<noteq> hasS3 sp" and "\<forall>k. ext k = None"
  shows "\<exists>store t. Store ext (Some sp) = (Inr store, t)"
  using assms by (auto simp: Store_def invoke_def Let_def)

lemma FS_composes:
  assumes "\<forall>k. ext k = None" and "Password c \<noteq> []"
    and "StorageProvider c = Some sp" and "hasB2 sp \<noteq> hasS3 sp"
  shows "\<exists>h. fs_result (FS ext c mp) = Inr h"
proof -
  from Store_connects [OF assms(4,1)] assms(3)
  obtain store t where st: "Store ext (StorageProvider c) = (Inr store, t)"
    by auto
  from assms(1) FS_table(7) [OF st, of mp] assms(2) show ?thesis
    by simp
qed

text \<open>What a run is certain to have done once a step has been passed.\<close>

lemma FS_reaches:
  fixes ext :: externals and c :: Client and mp :: string
  defines "c' \<equiv> apply_defaults c mp"
  defines "wal \<equiv> \<lambda>store. LocalWAL store (Join [DataDir c', ''wal'']) (MaxWALSize c')"
  defines "kwal \<equiv> \<lambda>store. CallNewLocalWAL store (Join [DataDir c', ''wal'']) (MaxWALSize c')"
  defines "kcache \<equiv> \<lambda>store. CallNewCache (wal store) (CacheSize c')"
  defines "rel \<equiv> \<lambda>store. if CacheSize c \<noteq> - 1 then Cache (wal store) (CacheSize c')
                            else wal store"
  defines "intg \<equiv> \<lambda>store. Integrity (SimpleBlock (BufferedStorage (rel store))) (Password c)
                              (Join [DataDir c', ''pin.json''])"
  defines "kint \<equiv> \<lambda>store. CallWithIntegrity (SimpleBlock (BufferedStorage (rel store)))
                              (Password c) (Join [DataDir c', ''pin.json''])"
  defines "kenc \<equiv> \<lambda>store. CallWithEncryption (intg store) (Password c)"
  defines "kfs \<equiv> \<lambda>store. CallNewBlockFilesystem
                     (AppStorage (Encryption (intg store) (Password c))) (NumPtrs c') (DataSize c')"
  assumes st: "Store ext (StorageProvider c) = (Inr store, t)"
  shows "kwal store \<in> set (fs_calls (FS ext c mp))
         \<and> MaxWALSize (fs_config (FS ext c mp)) = MaxWALSize c'"
    and "ext (kwal store) = None \<Longrightarrow>
           CacheSize (fs_config (FS ext c mp)) = CacheSize c'
           \<and> (CacheSize c \<noteq> - 1 \<longrightarrow> kcache store \<in> set (fs_calls (FS ext c mp)))"
    and "ext (kwal store) = None \<Longrightarrow> CacheSize c = - 1 \<or> ext (kcache store) = None \<Longrightarrow>
         Password c \<noteq> [] \<Longrightarrow> ext (kint store) = None \<Longrightarrow> ext (kenc store) = None \<Longrightarrow>
           NumPtrs (fs_config (FS ext c mp)) = NumPtrs c'
           \<and> DataSize (fs_config (FS ext c mp)) = DataSize c'
           \<and> kfs store \<in> set (fs_calls (FS ext c mp))"
proof -
  note defs = c'_def wal_def kwal_def kcache_def rel_def intg_def kint_def kenc_def kfs_def
  note rows = FS_table [OF st, of mp]
  have sentinel: "CacheSize (apply_defaults c mp) \<noteq> 0"
    by (simp add: apply_defaults_fields)
  show "kwal store \<in> set (fs_calls (FS ext c mp))
         \<and> MaxWALSize (fs_config (FS ext c mp)) = MaxWALSize c'"
    unfolding defs
    by (cases rule: FS_outcomes [of ext c mp])
      (use st in \<open>simp_all add: apply_defaults_def del: Join.simps\<close>)
  show "CacheSize (fs_config (FS ext c mp)) = CacheSize c'
           \<and> (CacheSize c \<noteq> - 1 \<longrightarrow> kcache store \<in> set (fs_calls (FS ext c mp)))"
    if "ext (kwal store) = None"
    using that unfolding defs
    by (cases rule: FS_outcomes [of ext c mp])
      (use st in \<open>auto simp add: apply_defaults_def default_CacheSize_value simp del: Join.simps
         split: if_splits\<close>)
  show "NumPtrs (fs_config (FS ext c mp)) = NumPtrs c'
           \<and> DataSize (fs_config (FS ext c mp)) = DataSize c'
           \<and> kfs store \<in> set (fs_calls (FS ext c mp))"
    if "ext (kwal store) = None" "CacheSize c = - 1 \<or> ext (kcache store) = None"
       "Password c \<noteq> []" "ext (kint store) = None" "ext (kenc store) = None"
  proof (cases "ext (kfs store)")
    case None
    with that rows(7) show ?thesis unfolding defs by (simp del: Join.simps)
  next
    case (Some msg)
    with that rows(6) [of msg] show ?thesis unfolding defs by (simp del: Join.simps)
  qed
qed

text \<open>
  With an empty password no layer above the block framer is built, and the
  missing-credential error goes with having reached \<open>NewSimpleBlock\<close>.
\<close>

lemma FS_no_password_calls:
  assumes "Password c = []"
  shows "(\<exists>err. fs_result (FS ext c mp) = Inl err)
       \<and> (\<forall>k \<in> set (fs_calls (FS ext c mp)). \<not> is_upper_call k)
       \<and> (fs_result (FS ext c mp) = Inl MissingCredential
            \<longleftrightarrow> (\<exists>b. CallNewSimpleBlock b \<in> set (fs_calls (FS ext c mp))))
       \<and> (fs_result (FS ext c mp) = Inl MissingCredential
            \<longrightarrow> (\<exists>k \<in> set (fs_calls (FS ext c mp)). is_connect_call k))
       \<and> ((\<forall>k. ext k = None) \<and> (\<exists>sp. StorageProvider c = Some sp \<and> hasB2 sp \<noteq> hasS3 sp)
            \<longrightarrow> fs_result (FS ext c mp) = Inl MissingCredential)"
proof (cases rule: FS_outcomes [of ext c mp])
  case (store_failed err t)
  have k: "\<And>k. k \<in> set t \<Longrightarrow> \<not> is_upper_call k \<and> (\<forall>b. k \<noteq> CallNewSimpleBlock b)"
    using Store_calls_only [of _ ext "StorageProvider c"] store_failed(1) by simp
  have a: "\<exists>err. fs_result (FS ext c mp) = Inl err"
    using store_failed by simp
  have b: "\<forall>k \<in> set (fs_calls (FS ext c mp)). \<not> is_upper_call k"
    using store_failed(2) k by auto
  have nb: "\<not> (\<exists>b. CallNewSimpleBlock b \<in> set (fs_calls (FS ext c mp)))"
    using store_failed(2) k by auto
  have ne: "fs_result (FS ext c mp) \<noteq> Inl MissingCredential"
    using store_failed Store_error_kind [of ext "StorageProvider c" err t] by simp
  have d: "\<not> ((\<forall>k. ext k = None) \<and> (\<exists>sp. StorageProvider c = Some sp \<and> hasB2 sp \<noteq> hasS3 sp))"
    using store_failed(1) Store_fails_only_if [of ext _ err t] by auto
  from a b nb ne d show ?thesis by blast
next
  case (wal_failed store t msg)
  have k: "\<And>k. k \<in> set t \<Longrightarrow> \<not> is_upper_call k \<and> (\<forall>b. k \<noteq> CallNewSimpleBlock b)"
    using Store_calls_only [of _ ext "StorageProvider c"] wal_failed(1) by simp
  have a: "\<exists>err. fs_result (FS ext c mp) = Inl err"
    using wal_failed by simp
  have b: "\<forall>k \<in> set (fs_calls (FS ext c mp)). \<not> is_upper_call k"
    using wal_failed(3) k by auto
  have nb: "\<not> (\<exists>b. CallNewSimpleBlock b \<in> set (fs_calls (FS ext c mp)))"
    using wal_failed(3) k by auto
  have ne: "fs_result (FS ext c mp) \<noteq> Inl MissingCredential"
    using wal_failed by simp
  have d: "\<not> (\<forall>k. ext k = None)"
    using wal_failed(2) by auto
  from a b nb ne d show ?thesis by blast
next
  case (cache_failed store t msg)
  have k: "\<And>k. k \<in> set t \<Longrightarrow> \<not> is_upper_call k \<and> (\<forall>b. k \<noteq> CallNewSimpleBlock b)"
    using Store_calls_only [of _ ext "StorageProvider c"] cache_failed(1) by simp
  have a: "\<exists>err. fs_result (FS ext c mp) = Inl err"
    using cache_failed by simp
  have b: "\<forall>k \<in> set (fs_calls (FS ext c mp)). \<not> is_upper_call k"
    using cache_failed(5) k by auto
  have nb: "\<not> (\<exists>b. CallNewSimpleBlock b \<in> set (fs_calls (FS ext c mp)))"
    using cache_failed(5) k by auto
  have ne: "fs_result (FS ext c mp) \<noteq> Inl MissingCredential"
    using cache_failed by simp
  have d: "\<not> (\<forall>k. ext k = None)"
    using cache_failed(4) by auto
  from a b nb ne d show ?thesis by blast
next
  case (no_password store t)
  have k: "\<And>k. k \<in> set t \<Longrightarrow> \<not> is_upper_call k \<and> (\<forall>b. k \<noteq> CallNewSimpleBlock b)"
    using Store_calls_only [of _ ext "StorageProvider c"] no_password(1) by simp
  have r: "fs_result (FS ext c mp) = Inl MissingCredential"
    using no_password by simp
  have b: "\<forall>k \<in> set (fs_calls (FS ext c mp)). \<not> is_upper_call k"
    using no_password(5) k by auto
  have sb: "\<exists>b. CallNewSimpleBlock b \<in> set (fs_calls (FS ext c mp))"
    using no_password(5) by auto
  have cn: "\<exists>k \<in> set (fs_calls (FS ext c mp)). is_connect_call k"
    using no_password(5) Store_returns_connected [OF no_password(1)] by auto
  from r b sb cn show ?thesis by simp
qed (use assms in simp_all)

text \<open>The order of wrapping, and of the calls, in a handle that \<open>FS\<close> returns.\<close>

lemma FS_wrapping_order:
  assumes "fs_result (FS ext c mp) = Inr h"
  shows "\<exists>rel pin numPtrs dataSize.
           h = BlockFilesystem
                 (AppStorage
                    (Encryption
                       (Integrity (SimpleBlock (BufferedStorage rel)) (Password c) pin)
                       (Password c)))
                 numPtrs dataSize
         \<and> layers h = [FilesystemLayer, AppStorageLayer, EncryptionLayer, IntegrityLayer,
                        BlockLayer, BufferingLayer] @ reliable_layers rel
         \<and> EncryptionLayer \<notin> set (reliable_layers rel)
         \<and> IntegrityLayer \<notin> set (reliable_layers rel)
         \<and> (\<exists>before after. fs_calls (FS ext c mp) =
               before
               @ [CallWithIntegrity (SimpleBlock (BufferedStorage rel)) (Password c) pin,
                  CallWithEncryption
                    (Integrity (SimpleBlock (BufferedStorage rel)) (Password c) pin)
                    (Password c)]
               @ after)"
proof (rule FS_composed [OF assms], goal_cases)
  case (1 store t c' wal rel blk intg enc)
  note blk = 1(5) and intg = 1(6) and enc = 1(7) and h = 1(8) and calls = 1(10)
  let ?pin = "Join [DataDir c', ''pin.json'']"
  have shape: "h = BlockFilesystem
                 (AppStorage
                    (Encryption
                       (Integrity (SimpleBlock (BufferedStorage rel)) (Password c) ?pin)
                       (Password c)))
                 (NumPtrs c') (DataSize c')"
    by (simp only: h enc intg blk)
  have chain: "layers h = [FilesystemLayer, AppStorageLayer, EncryptionLayer, IntegrityLayer,
                        BlockLayer, BufferingLayer] @ reliable_layers rel"
    by (simp add: shape del: Join.simps)
  have below: "EncryptionLayer \<notin> set (reliable_layers rel)"
      "IntegrityLayer \<notin> set (reliable_layers rel)"
    using reliable_layers_kind [of rel] by auto
  have order: "fs_calls (FS ext c mp) =
      (t @ [CallNewLocalWAL store (Join [DataDir c', ''wal'']) (MaxWALSize c')]
         @ (if CacheSize c' \<noteq> - 1 then [CallNewCache wal (CacheSize c')] else [])
         @ [CallNewBufferedStorage rel, CallNewSimpleBlock (BufferedStorage rel)])
      @ [CallWithIntegrity (SimpleBlock (BufferedStorage rel)) (Password c) ?pin,
         CallWithEncryption (Integrity (SimpleBlock (BufferedStorage rel)) (Password c) ?pin)
           (Password c)]
      @ [CallNewAppStorage enc,
         CallNewBlockFilesystem (AppStorage enc) (NumPtrs c') (DataSize c')]"
    by (simp add: calls enc intg blk del: Join.simps)
  from shape chain below order show ?thesis by blast
qed

text \<open>The sizing values that the constructor calls of a run carry.\<close>

lemma FS_sizing_used:
  "(\<forall>base loc n. CallNewLocalWAL base loc n \<in> set (fs_calls (FS ext c mp)) \<longrightarrow>
       n = (if MaxWALSize c = 0 then 64 * 512 else MaxWALSize c))
   \<and> (\<forall>base n. CallNewCache base n \<in> set (fs_calls (FS ext c mp)) \<longrightarrow>
       CacheSize c \<noteq> - 1 \<and> n = (if CacheSize c = 0 then 32 * 1024 else CacheSize c))
   \<and> (\<forall>base np ds. CallNewBlockFilesystem base np ds \<in> set (fs_calls (FS ext c mp)) \<longrightarrow>
       np = (if NumPtrs c = 0 then 12 else NumPtrs c)
       \<and> ds = (if DataSize c = 0 then 32 * 1024 else DataSize c))
   \<and> (\<forall>h. fs_result (FS ext c mp) = Inr h \<longrightarrow>
         MaxWALSize (fs_config (FS ext c mp)) = (if MaxWALSize c = 0 then 64 * 512 else MaxWALSize c)
       \<and> CacheSize (fs_config (FS ext c mp)) = (if CacheSize c = 0 then 32 * 1024 else CacheSize c)
       \<and> NumPtrs (fs_config (FS ext c mp)) = (if NumPtrs c = 0 then 12 else NumPtrs c)
       \<and> DataSize (fs_config (FS ext c mp)) = (if DataSize c = 0 then 32 * 1024 else DataSize c)
       \<and> (\<exists>store loc pin.
             h = BlockFilesystem
                   (AppStorage (Encryption (Integrity (SimpleBlock (BufferedStorage
                      (if CacheSize c = - 1
                       then LocalWAL store loc
                              (if MaxWALSize c = 0 then 64 * 512 else MaxWALSize c)
                       else Cache (LocalWAL store loc
                              (if MaxWALSize c = 0 then 64 * 512 else MaxWALSize c))
                              (if CacheSize c = 0 then 32 * 1024 else CacheSize c))))
                      (Password c) pin) (Password c)))
                   (if NumPtrs c = 0 then 12 else NumPtrs c)
                   (if DataSize c = 0 then 32 * 1024 else DataSize c))
       \<and> (CacheLayer \<in> set (layers h) \<longleftrightarrow> CacheSize c \<noteq> - 1))"
proof -
  have not_store: "\<And>k. k \<in> set (snd (Store ext (StorageProvider c))) \<Longrightarrow>
      (\<forall>base loc n. k \<noteq> CallNewLocalWAL base loc n) \<and> \<not> is_cache_call k \<and> \<not> is_upper_call k"
    using Store_calls_only by blast
  have wal: "n = (if MaxWALSize c = 0 then 64 * 512 else MaxWALSize c)"
    if "CallNewLocalWAL base loc n \<in> set (fs_calls (FS ext c mp))" for base loc n
    using FS_calls_shape [OF that] not_store [of "CallNewLocalWAL base loc n"]
    by (auto simp: apply_defaults_fields)
  have cache: "CacheSize c \<noteq> - 1 \<and> n = (if CacheSize c = 0 then 32 * 1024 else CacheSize c)"
    if "CallNewCache base n \<in> set (fs_calls (FS ext c mp))" for base n
    using FS_calls_shape [OF that] not_store [of "CallNewCache base n"]
    by (auto simp: apply_defaults_fields split: if_splits)
  have fs: "np = (if NumPtrs c = 0 then 12 else NumPtrs c)
       \<and> ds = (if DataSize c = 0 then 32 * 1024 else DataSize c)"
    if "CallNewBlockFilesystem base np ds \<in> set (fs_calls (FS ext c mp))" for base np ds
    using FS_calls_shape [OF that] not_store [of "CallNewBlockFilesystem base np ds"]
    by (auto simp: apply_defaults_fields)
  have success: "MaxWALSize (fs_config (FS ext c mp)) = (if MaxWALSize c = 0 then 64 * 512 else MaxWALSize c)
       \<and> CacheSize (fs_config (FS ext c mp)) = (if CacheSize c = 0 then 32 * 1024 else CacheSize c)
       \<and> NumPtrs (fs_config (FS ext c mp)) = (if NumPtrs c = 0 then 12 else NumPtrs c)
       \<and> DataSize (fs_config (FS ext c mp)) = (if DataSize c = 0 then 32 * 1024 else DataSize c)
       \<and> (\<exists>store loc pin.
             h = BlockFilesystem
                   (AppStorage (Encryption (Integrity (SimpleBlock (BufferedStorage
                      (if CacheSize c = - 1
                       then LocalWAL store loc
                              (if MaxWALSize c = 0 then 64 * 512 else MaxWALSize c)
                       else Cache (LocalWAL store loc
                              (if MaxWALSize c = 0 then 64 * 512 else MaxWALSize c))
                              (if CacheSize c = 0 then 32 * 1024 else CacheSize c))))
                      (Password c) pin) (Password c)))
                   (if NumPtrs c = 0 then 12 else NumPtrs c)
                   (if DataSize c = 0 then 32 * 1024 else DataSize c))
       \<and> (CacheLayer \<in> set (layers h) \<longleftrightarrow> CacheSize c \<noteq> - 1)"
    if ok: "fs_result (FS ext c mp) = Inr h" for h
  proof (rule FS_composed [OF ok], goal_cases)
    case (1 store t c' wal rel blk intg enc)
    note c' = 1(1) and walv = 1(3) and relv = 1(4) and blk = 1(5) and intg = 1(6)
      and enc = 1(7) and h = 1(8) and cfg = 1(9)
    have sentinel: "CacheSize c' \<noteq> - 1 \<longleftrightarrow> CacheSize c \<noteq> - 1"
      by (simp add: c' apply_defaults_fields)
    have fields: "MaxWALSize (fs_config (FS ext c mp)) = (if MaxWALSize c = 0 then 64 * 512 else MaxWALSize c)"
      "CacheSize (fs_config (FS ext c mp)) = (if CacheSize c = 0 then 32 * 1024 else CacheSize c)"
      "NumPtrs (fs_config (FS ext c mp)) = (if NumPtrs c = 0 then 12 else NumPtrs c)"
      "DataSize (fs_config (FS ext c mp)) = (if DataSize c = 0 then 32 * 1024 else DataSize c)"
      by (simp_all add: cfg c' apply_defaults_fields)
    have rel': "rel = (if CacheSize c = - 1
                       then LocalWAL store (Join [DataDir c', ''wal''])
                              (if MaxWALSize c = 0 then 64 * 512 else MaxWALSize c)
                       else Cache (LocalWAL store (Join [DataDir c', ''wal''])
                              (if MaxWALSize c = 0 then 64 * 512 else MaxWALSize c))
                              (if CacheSize c = 0 then 32 * 1024 else CacheSize c))"
      unfolding relv walv using sentinel
      by (cases "CacheSize c = - 1") (simp_all add: c' apply_defaults_fields del: Join.simps)
    have shape: "h = BlockFilesystem
                   (AppStorage (Encryption (Integrity (SimpleBlock (BufferedStorage
                      (if CacheSize c = - 1
                       then LocalWAL store (Join [DataDir c', ''wal''])
                              (if MaxWALSize c = 0 then 64 * 512 else MaxWALSize c)
                       else Cache (LocalWAL store (Join [DataDir c', ''wal''])
                              (if MaxWALSize c = 0 then 64 * 512 else MaxWALSize c))
                              (if CacheSize c = 0 then 32 * 1024 else CacheSize c))))
                      (Password c) (Join [DataDir c', ''pin.json''])) (Password c)))
                   (if NumPtrs c = 0 then 12 else NumPtrs c)
                   (if DataSize c = 0 then 32 * 1024 else DataSize c)"
      unfolding h enc intg blk
      using rel' by (simp add: c' apply_defaults_fields del: Join.simps)
    have "CacheLayer \<notin> set (object_layers store)"
      using object_layers_kind [of store] by auto
    then have chain: "CacheLayer \<in> set (layers h) \<longleftrightarrow> CacheSize c \<noteq> - 1"
      unfolding h enc intg blk rel' by (simp del: Join.simps)
    from fields shape chain show ?case by blast
  qed
  from wal cache fs success show ?thesis by blast
qed

text \<open>After a failure each field is as it was or holds its default.\<close>

lemma FS_failure_fields:
  assumes "fs_result (FS ext c mp) = Inl err"
  shows "StorageProvider (fs_config (FS ext c mp)) = StorageProvider c
       \<and> Password (fs_config (FS ext c mp)) = Password c
       \<and> DataDir (fs_config (FS ext c mp))
           = (if DataDir c = [] then Join [Dir mp, ''.utahfs''] else DataDir c)
       \<and> (MaxWALSize (fs_config (FS ext c mp)) = MaxWALSize c
            \<or> MaxWALSize c = 0 \<and> MaxWALSize (fs_config (FS ext c mp)) = 64 * 512)
       \<and> (CacheSize (fs_config (FS ext c mp)) = CacheSize c
            \<or> CacheSize c = 0 \<and> CacheSize (fs_config (FS ext c mp)) = 32 * 1024)
       \<and> (NumPtrs (fs_config (FS ext c mp)) = NumPtrs c
            \<or> NumPtrs c = 0 \<and> NumPtrs (fs_config (FS ext c mp)) = 12)
       \<and> (DataSize (fs_config (FS ext c mp)) = DataSize c
            \<or> DataSize c = 0 \<and> DataSize (fs_config (FS ext c mp)) = 32 * 1024)
       \<and> (DataDir c \<noteq> [] \<and> MaxWALSize c \<noteq> 0 \<and> CacheSize c \<noteq> 0 \<and> NumPtrs c \<noteq> 0
            \<and> DataSize c \<noteq> 0 \<longrightarrow> fs_config (FS ext c mp) = c)"
proof -
  note vals = apply_defaults_fields default_DataDir_value default_MaxWALSize_value
    default_CacheSize_value
  have b: "StorageProvider (fs_config (FS ext c mp)) = StorageProvider c"
    using FS_config_stage [of ext c mp] by (auto simp: vals simp del: Join.simps split: if_splits)
  have p: "Password (fs_config (FS ext c mp)) = Password c"
    using FS_config_stage [of ext c mp] by (auto simp: vals simp del: Join.simps split: if_splits)
  have d: "DataDir (fs_config (FS ext c mp))
           = (if DataDir c = [] then Join [Dir mp, ''.utahfs''] else DataDir c)"
    using FS_config_stage [of ext c mp] by (auto simp: vals simp del: Join.simps split: if_splits)
  have w: "MaxWALSize (fs_config (FS ext c mp)) = MaxWALSize c
            \<or> MaxWALSize c = 0 \<and> MaxWALSize (fs_config (FS ext c mp)) = 64 * 512"
    using FS_config_stage [of ext c mp] by (auto simp: vals simp del: Join.simps split: if_splits)
  have s: "CacheSize (fs_config (FS ext c mp)) = CacheSize c
            \<or> CacheSize c = 0 \<and> CacheSize (fs_config (FS ext c mp)) = 32 * 1024"
    using FS_config_stage [of ext c mp] by (auto simp: vals simp del: Join.simps split: if_splits)
  have n: "NumPtrs (fs_config (FS ext c mp)) = NumPtrs c
            \<or> NumPtrs c = 0 \<and> NumPtrs (fs_config (FS ext c mp)) = 12"
    using FS_config_stage [of ext c mp] by (auto simp: vals simp del: Join.simps split: if_splits)
  have z: "DataSize (fs_config (FS ext c mp)) = DataSize c
            \<or> DataSize c = 0 \<and> DataSize (fs_config (FS ext c mp)) = 32 * 1024"
    using FS_config_stage [of ext c mp] by (auto simp: vals simp del: Join.simps split: if_splits)
  have u: "fs_config (FS ext c mp) = c"
    if "DataDir c \<noteq> []" "MaxWALSize c \<noteq> 0" "CacheSize c \<noteq> 0" "NumPtrs c \<noteq> 0" "DataSize c \<noteq> 0"
    using FS_config_stage [of ext c mp] that by (auto simp: default_fixed apply_defaults_def)
  from b p d w s n z u show ?thesis by blast
qed

section \<open>Backend selection\<close>

text \<open>
  C3. When both credential groups have at least one field set, however few, \<open>Store\<close>
  fails with the ambiguous-provider error, and it has called no constructor: no backend
  is connected.
\<close>

theorem Store_ambiguous:
  "hasB2 sp \<Longrightarrow> hasS3 sp \<Longrightarrow> Store ext (Some sp) = (Inl AmbiguousProvider, [])"
  by (simp add: Store_def)

theorem Store_ambiguous_witness:
  "hasB2 (zero_StorageProvider\<lparr>B2Url := ''https://b2.example''\<rparr>\<lparr>S3Region := ''us-east-1''\<rparr>)
   \<and> hasS3 (zero_StorageProvider\<lparr>B2Url := ''https://b2.example''\<rparr>\<lparr>S3Region := ''us-east-1''\<rparr>)
   \<and> Store (\<lambda>k. None)
        (Some (zero_StorageProvider\<lparr>B2Url := ''https://b2.example''\<rparr>\<lparr>S3Region := ''us-east-1''\<rparr>))
      = (Inl AmbiguousProvider, [])"
proof -
  let ?sp = "zero_StorageProvider\<lparr>B2Url := ''https://b2.example''\<rparr>\<lparr>S3Region := ''us-east-1''\<rparr>"
  have b2: "hasB2 ?sp" by (simp add: hasB2_def zero_StorageProvider_def)
  have s3: "hasS3 ?sp" by (simp add: hasS3_def zero_StorageProvider_def)
  from b2 s3 Store_ambiguous [OF b2 s3, of "\<lambda>k. None"] show ?thesis by simp
qed

text \<open>
  C4. When neither credential group has any field set, \<open>Store\<close> fails with the
  no-provider error, and it has called no constructor: no backend is connected.
\<close>

theorem Store_no_provider:
  "\<not> hasB2 sp \<Longrightarrow> \<not> hasS3 sp \<Longrightarrow> Store ext (Some sp) = (Inl NoProviderConfigured, [])"
  by (simp add: Store_def)

theorem Store_no_provider_witness:
  "\<not> hasB2 (zero_StorageProvider\<lparr>Retry := 5\<rparr>) \<and> \<not> hasS3 (zero_StorageProvider\<lparr>Retry := 5\<rparr>)
   \<and> Store (\<lambda>k. None) (Some (zero_StorageProvider\<lparr>Retry := 5\<rparr>))
      = (Inl NoProviderConfigured, [])"
proof -
  let ?sp = "zero_StorageProvider\<lparr>Retry := 5\<rparr>"
  have b2: "\<not> hasB2 ?sp" by (simp add: hasB2_def zero_StorageProvider_def)
  have s3: "\<not> hasS3 ?sp" by (simp add: hasS3_def zero_StorageProvider_def)
  from b2 s3 Store_no_provider [OF b2 s3, of "\<lambda>k. None"] show ?thesis by simp
qed

text \<open>
  C9. \<open>Store\<close> on a nil receiver returns the no-provider error without touching a field
  and without calling a constructor: the same outcome as for a record whose
  credential fields are all empty.
\<close>

theorem Store_nil_receiver:
  "Store ext None = (Inl NoProviderConfigured, [])
   \<and> Store ext None = Store ext (Some zero_StorageProvider)"
  by (simp add: Store_def hasB2_def hasS3_def zero_StorageProvider_def)

theorem Store_nil_receiver_witness:
  "Store (\<lambda>k. Some ''unreachable'') None = (Inl NoProviderConfigured, [])"
  using Store_nil_receiver [of "\<lambda>k. Some ''unreachable''"] by simp

text \<open>
  C5. For a record with exactly one credential group set, \<open>Store\<close> connects that backend
  and then, exactly when the retry bound is greater than 1, calls \<open>NewRetry\<close> with the
  backend and the bound and returns the decorated backend; with a bound of 1, 0 or
  less it returns the backend itself, the connection being the only call. An error of
  the connection or of \<open>NewRetry\<close> is returned as it is. Whenever \<open>Store\<close> returns a
  backend at all, it has this form.
\<close>

theorem Store_retry:
  fixes ext :: externals and sp :: StorageProvider
  defines "backend \<equiv> (if hasB2 sp
                        then B2 (B2AcctId sp) (B2AppKey sp) (B2Bucket sp) (B2Url sp)
                        else S3 (S3AppId sp) (S3AppKey sp) (S3Bucket sp) (S3Url sp) (S3Region sp))"
  defines "connect \<equiv> (if hasB2 sp
                        then CallNewB2 (B2AcctId sp) (B2AppKey sp) (B2Bucket sp) (B2Url sp)
                        else CallNewS3 (S3AppId sp) (S3AppKey sp) (S3Bucket sp) (S3Url sp)
                               (S3Region sp))"
  defines "retry \<equiv> CallNewRetry backend (Retry sp)"
  shows "(hasB2 sp \<noteq> hasS3 sp \<and> ext connect = None \<and> 1 < Retry sp \<and> ext retry = None \<longrightarrow>
            Store ext (Some sp) = (Inr (Retried backend (Retry sp)), [connect, retry]))
       \<and> (hasB2 sp \<noteq> hasS3 sp \<and> ext connect = None \<and> \<not> 1 < Retry sp \<longrightarrow>
            Store ext (Some sp) = (Inr backend, [connect]))
       \<and> (\<forall>msg. hasB2 sp \<noteq> hasS3 sp \<and> ext connect = None \<and> 1 < Retry sp \<and> ext retry = Some msg \<longrightarrow>
            Store ext (Some sp) = (Inl (External msg), [connect, retry]))
       \<and> (\<forall>msg. hasB2 sp \<noteq> hasS3 sp \<and> ext connect = Some msg \<longrightarrow>
            Store ext (Some sp) = (Inl (External msg), [connect]))
       \<and> (\<forall>out calls. Store ext (Some sp) = (Inr out, calls) \<longrightarrow>
            (if 1 < Retry sp
             then out = Retried backend (Retry sp) \<and> calls = [connect, retry]
             else out = backend \<and> calls = [connect]))"
proof -
  note defs = backend_def connect_def retry_def
  have wrapped: "Store ext (Some sp) = (Inr (Retried backend (Retry sp)), [connect, retry])"
    if "hasB2 sp \<noteq> hasS3 sp" "ext connect = None" "1 < Retry sp" "ext retry = None"
    using that by (auto simp: Store_def invoke_def Let_def defs)
  have bare: "Store ext (Some sp) = (Inr backend, [connect])"
    if "hasB2 sp \<noteq> hasS3 sp" "ext connect = None" "\<not> 1 < Retry sp"
    using that by (auto simp: Store_def invoke_def Let_def defs)
  have retry_fails: "Store ext (Some sp) = (Inl (External msg), [connect, retry])"
    if "hasB2 sp \<noteq> hasS3 sp" "ext connect = None" "1 < Retry sp" "ext retry = Some msg" for msg
    using that by (auto simp: Store_def invoke_def Let_def defs)
  have connect_fails: "Store ext (Some sp) = (Inl (External msg), [connect])"
    if "hasB2 sp \<noteq> hasS3 sp" "ext connect = Some msg" for msg
    using that by (auto simp: Store_def invoke_def Let_def defs)
  have returned: "if 1 < Retry sp
             then out = Retried backend (Retry sp) \<and> calls = [connect, retry]
             else out = backend \<and> calls = [connect]"
    if "Store ext (Some sp) = (Inr out, calls)" for out calls
    using that by (auto simp: Store_def invoke_def Let_def defs split: option.splits if_splits)
  from wrapped bare retry_fails connect_fails returned show ?thesis by blast
qed

theorem Store_retry_witness:
  "Store all_succeed (Some (example_provider\<lparr>Retry := 2\<rparr>))
     = (Inr (Retried (B2 ''acct'' ''key'' ''bucket'' []) 2),
        [CallNewB2 ''acct'' ''key'' ''bucket'' [],
         CallNewRetry (B2 ''acct'' ''key'' ''bucket'' []) 2])
   \<and> Store all_succeed (Some (example_provider\<lparr>Retry := 1\<rparr>))
     = (Inr (B2 ''acct'' ''key'' ''bucket'' []), [CallNewB2 ''acct'' ''key'' ''bucket'' []])
   \<and> Store retry_unavailable (Some (example_provider\<lparr>Retry := 2\<rparr>))
     = (Inl (External ''retry: bad argument''),
        [CallNewB2 ''acct'' ''key'' ''bucket'' [],
         CallNewRetry (B2 ''acct'' ''key'' ''bucket'' []) 2])"
proof -
  have group: "hasB2 (example_provider\<lparr>Retry := n\<rparr>)" "\<not> hasS3 (example_provider\<lparr>Retry := n\<rparr>)" for n
    by (simp_all add: example_provider_def zero_StorageProvider_def hasB2_def hasS3_def)
  have fields: "B2AcctId (example_provider\<lparr>Retry := n\<rparr>) = ''acct''"
    "B2AppKey (example_provider\<lparr>Retry := n\<rparr>) = ''key''"
    "B2Bucket (example_provider\<lparr>Retry := n\<rparr>) = ''bucket''"
    "B2Url (example_provider\<lparr>Retry := n\<rparr>) = []" for n
    by (simp_all add: example_provider_def zero_StorageProvider_def)
  have ok: "all_succeed k = None" for k
    by (simp add: all_succeed_def)
  have no_retry: "retry_unavailable (CallNewB2 ''acct'' ''key'' ''bucket'' []) = None"
    "retry_unavailable (CallNewRetry (B2 ''acct'' ''key'' ''bucket'' []) 2)
       = Some ''retry: bad argument''"
    by (simp_all add: retry_unavailable_def)
  have two: "Store all_succeed (Some (example_provider\<lparr>Retry := 2\<rparr>))
     = (Inr (Retried (B2 ''acct'' ''key'' ''bucket'' []) 2),
        [CallNewB2 ''acct'' ''key'' ''bucket'' [],
         CallNewRetry (B2 ''acct'' ''key'' ''bucket'' []) 2])"
    using Store_retry [where sp = "example_provider\<lparr>Retry := 2\<rparr>" and ext = all_succeed,
        THEN conjunct1]
    by (simp add: group fields ok)
  have one: "Store all_succeed (Some (example_provider\<lparr>Retry := 1\<rparr>))
     = (Inr (B2 ''acct'' ''key'' ''bucket'' []), [CallNewB2 ''acct'' ''key'' ''bucket'' []])"
    using Store_retry [where sp = "example_provider\<lparr>Retry := 1\<rparr>" and ext = all_succeed,
        THEN conjunct2, THEN conjunct1]
    by (simp add: group fields ok)
  have failing: "Store retry_unavailable (Some (example_provider\<lparr>Retry := 2\<rparr>))
     = (Inl (External ''retry: bad argument''),
        [CallNewB2 ''acct'' ''key'' ''bucket'' [],
         CallNewRetry (B2 ''acct'' ''key'' ''bucket'' []) 2])"
    using Store_retry [where sp = "example_provider\<lparr>Retry := 2\<rparr>" and ext = retry_unavailable,
        THEN conjunct2, THEN conjunct2, THEN conjunct1]
    by (simp add: group fields no_retry)
  from two one failing show ?thesis by (intro conjI)
qed

section \<open>Composition\<close>

text \<open>
  C1, as the code has it. With an empty password \<open>FS\<close> never returns a handle and never
  calls a constructor of the layers above the block framer (integrity, encryption,
  application storage, filesystem). The password is tested only after the backend, the
  WAL, the cache, the buffer and the block framer have been set up. So the outcome is
  decided by the earlier steps, in this order: if \<open>Store\<close> fails, \<open>FS\<close> returns that error
  and has made the calls of \<open>Store\<close> only; if \<open>NewLocalWAL\<close> fails, its error; if the
  cache is enabled and \<open>NewCache\<close> fails, its error; in every other case the
  missing-credential error, after \<open>NewBufferedStorage\<close> and \<open>NewSimpleBlock\<close>, and then
  \<open>Store\<close> has connected a backend. When every constructor succeeds and exactly one
  credential group is set, the error is the missing-credential error.
\<close>

theorem FS_empty_password:
  fixes ext :: externals and c :: Client and mp :: string
  defines "c' \<equiv> apply_defaults c mp"
  defines "wal \<equiv> \<lambda>store. LocalWAL store (Join [DataDir c', ''wal'']) (MaxWALSize c')"
  defines "kwal \<equiv> \<lambda>store. CallNewLocalWAL store (Join [DataDir c', ''wal'']) (MaxWALSize c')"
  defines "kcache \<equiv> \<lambda>store. CallNewCache (wal store) (CacheSize c')"
  defines "rel \<equiv> \<lambda>store. if CacheSize c \<noteq> - 1 then Cache (wal store) (CacheSize c')
                            else wal store"
  assumes pw: "Password c = []"
  shows "(\<forall>err t. Store ext (StorageProvider c) = (Inl err, t) \<longrightarrow>
            fs_result (FS ext c mp) = Inl err \<and> fs_calls (FS ext c mp) = t)
       \<and> (\<forall>store t msg.
            Store ext (StorageProvider c) = (Inr store, t) \<and> ext (kwal store) = Some msg \<longrightarrow>
            fs_result (FS ext c mp) = Inl (External msg)
            \<and> fs_calls (FS ext c mp) = t @ [kwal store])
       \<and> (\<forall>store t msg.
            Store ext (StorageProvider c) = (Inr store, t) \<and> ext (kwal store) = None
            \<and> CacheSize c \<noteq> - 1 \<and> ext (kcache store) = Some msg \<longrightarrow>
            fs_result (FS ext c mp) = Inl (External msg)
            \<and> fs_calls (FS ext c mp) = t @ [kwal store, kcache store])
       \<and> (\<forall>store t.
            Store ext (StorageProvider c) = (Inr store, t) \<and> ext (kwal store) = None
            \<and> (CacheSize c = - 1 \<or> ext (kcache store) = None) \<longrightarrow>
            fs_result (FS ext c mp) = Inl MissingCredential
            \<and> fs_calls (FS ext c mp) =
                t @ [kwal store] @ (if CacheSize c \<noteq> - 1 then [kcache store] else [])
                  @ [CallNewBufferedStorage (rel store),
                     CallNewSimpleBlock (BufferedStorage (rel store))]
            \<and> (\<exists>k \<in> set t. is_connect_call k))
       \<and> (\<exists>err. fs_result (FS ext c mp) = Inl err)
       \<and> (\<forall>k \<in> set (fs_calls (FS ext c mp)). \<not> is_upper_call k)
       \<and> (fs_result (FS ext c mp) = Inl MissingCredential
            \<longleftrightarrow> (\<exists>b. CallNewSimpleBlock b \<in> set (fs_calls (FS ext c mp))))
       \<and> (fs_result (FS ext c mp) = Inl MissingCredential
            \<longrightarrow> (\<exists>k \<in> set (fs_calls (FS ext c mp)). is_connect_call k))
       \<and> ((\<forall>k. ext k = None) \<and> (\<exists>sp. StorageProvider c = Some sp \<and> hasB2 sp \<noteq> hasS3 sp)
            \<longrightarrow> fs_result (FS ext c mp) = Inl MissingCredential)"
proof -
  note defs = c'_def wal_def kwal_def kcache_def rel_def
  have r1: "fs_result (FS ext c mp) = Inl err \<and> fs_calls (FS ext c mp) = t"
    if "Store ext (StorageProvider c) = (Inl err, t)" for err t
    using FS_table_store_fails [OF that, of mp] by simp
  have r2: "fs_result (FS ext c mp) = Inl (External msg)
            \<and> fs_calls (FS ext c mp) = t @ [kwal store]"
    if "Store ext (StorageProvider c) = (Inr store, t)" "ext (kwal store) = Some msg"
    for store t msg
    using FS_table(1) [OF that(1), of mp msg] that(2) by (simp add: defs del: Join.simps)
  have r3: "fs_result (FS ext c mp) = Inl (External msg)
            \<and> fs_calls (FS ext c mp) = t @ [kwal store, kcache store]"
    if "Store ext (StorageProvider c) = (Inr store, t)" "ext (kwal store) = None"
       "CacheSize c \<noteq> - 1" "ext (kcache store) = Some msg"
    for store t msg
    using FS_table(2) [OF that(1), of mp msg] that(2-) by (simp add: defs del: Join.simps)
  have r4: "fs_result (FS ext c mp) = Inl MissingCredential
            \<and> fs_calls (FS ext c mp) =
                t @ [kwal store] @ (if CacheSize c \<noteq> - 1 then [kcache store] else [])
                  @ [CallNewBufferedStorage (rel store),
                     CallNewSimpleBlock (BufferedStorage (rel store))]
            \<and> (\<exists>k \<in> set t. is_connect_call k)"
    if "Store ext (StorageProvider c) = (Inr store, t)" "ext (kwal store) = None"
       "CacheSize c = - 1 \<or> ext (kcache store) = None"
    for store t
    using FS_table(3) [OF that(1), of mp] that(2-) pw Store_returns_connected [OF that(1)]
    by (cases "CacheSize c = - 1") (simp_all add: defs del: Join.simps)
  have R1: "\<forall>err t. Store ext (StorageProvider c) = (Inl err, t) \<longrightarrow>
            fs_result (FS ext c mp) = Inl err \<and> fs_calls (FS ext c mp) = t"
    using r1 by blast
  have R2: "\<forall>store t msg.
            Store ext (StorageProvider c) = (Inr store, t) \<and> ext (kwal store) = Some msg \<longrightarrow>
            fs_result (FS ext c mp) = Inl (External msg)
            \<and> fs_calls (FS ext c mp) = t @ [kwal store]"
    using r2 by blast
  have R3: "\<forall>store t msg.
            Store ext (StorageProvider c) = (Inr store, t) \<and> ext (kwal store) = None
            \<and> CacheSize c \<noteq> - 1 \<and> ext (kcache store) = Some msg \<longrightarrow>
            fs_result (FS ext c mp) = Inl (External msg)
            \<and> fs_calls (FS ext c mp) = t @ [kwal store, kcache store]"
    using r3 by blast
  have R4: "\<forall>store t.
            Store ext (StorageProvider c) = (Inr store, t) \<and> ext (kwal store) = None
            \<and> (CacheSize c = - 1 \<or> ext (kcache store) = None) \<longrightarrow>
            fs_result (FS ext c mp) = Inl MissingCredential
            \<and> fs_calls (FS ext c mp) =
                t @ [kwal store] @ (if CacheSize c \<noteq> - 1 then [kcache store] else [])
                  @ [CallNewBufferedStorage (rel store),
                     CallNewSimpleBlock (BufferedStorage (rel store))]
            \<and> (\<exists>k \<in> set t. is_connect_call k)"
    using r4 by blast
  show ?thesis
    by (rule conjI [OF R1 conjI [OF R2 conjI [OF R3 conjI [OF R4
          FS_no_password_calls [OF pw, of ext mp]]]]])
qed

theorem FS_empty_password_witness:
  "Password (example_client\<lparr>Password := []\<rparr>) = []
   \<and> fs_result (FS all_succeed (example_client\<lparr>Password := []\<rparr>) ''/mnt/utahfs'')
       = Inl MissingCredential
   \<and> fs_result (FS wal_unavailable (example_client\<lparr>Password := []\<rparr>) ''/mnt/utahfs'')
       = Inl (External ''wal: permission denied'')"
proof -
  let ?c = "example_client\<lparr>Password := []\<rparr>"
  let ?b2 = "B2 ''acct'' ''key'' ''bucket'' []"
  let ?t = "[CallNewB2 ''acct'' ''key'' ''bucket'' []]"
  have pw: "Password ?c = []" by simp
  have connected: "Store all_succeed (StorageProvider example_client) = (Inr ?b2, ?t)"
    by code_simp
  have connected': "Store wal_unavailable (StorageProvider example_client) = (Inr ?b2, ?t)"
    by code_simp
  have ok: "all_succeed k = None" for k
    by (simp add: all_succeed_def)
  have refused: "wal_unavailable (CallNewLocalWAL base loc n) = Some ''wal: permission denied''"
    for base loc n
    by (simp add: wal_unavailable_def)
  have "fs_result (FS all_succeed ?c ''/mnt/utahfs'') = Inl MissingCredential"
    using FS_empty_password [OF pw, where ext = all_succeed and mp = "''/mnt/utahfs''",
        THEN conjunct2, THEN conjunct2, THEN conjunct2, THEN conjunct1, rule_format,
        of ?b2 ?t]
    by (simp add: connected ok del: Join.simps)
  moreover have "fs_result (FS wal_unavailable ?c ''/mnt/utahfs'')
      = Inl (External ''wal: permission denied'')"
    using FS_empty_password [OF pw, where ext = wal_unavailable and mp = "''/mnt/utahfs''",
        THEN conjunct2, THEN conjunct1, rule_format, of ?b2 ?t "''wal: permission denied''"]
    by (simp add: connected' refused del: Join.simps)
  ultimately show ?thesis using pw by (intro conjI)
qed

text \<open>
  The specification's sentence does not hold on the code: the failure does not come
  before the backend is connected, and it is not always the missing-credential error.
  With B2 credentials, an empty password and collaborators that succeed, the missing-credential error comes after \<open>NewB2\<close>, \<open>NewLocalWAL\<close>,
  \<open>NewCache\<close>, \<open>NewBufferedStorage\<close> and \<open>NewSimpleBlock\<close> have been called. With an
  empty password and no storage provider, the error is the no-provider error.
\<close>

theorem FS_empty_password_counterexample:
  "Password (example_client\<lparr>Password := []\<rparr>) = []
   \<and> fs_result (FS all_succeed (example_client\<lparr>Password := []\<rparr>) ''/mnt/utahfs'')
       = Inl MissingCredential
   \<and> fs_calls (FS all_succeed (example_client\<lparr>Password := []\<rparr>) ''/mnt/utahfs'')
       = [CallNewB2 ''acct'' ''key'' ''bucket'' [],
          CallNewLocalWAL (B2 ''acct'' ''key'' ''bucket'' []) ''/mnt/.utahfs/wal'' 32768,
          CallNewCache
            (LocalWAL (B2 ''acct'' ''key'' ''bucket'' []) ''/mnt/.utahfs/wal'' 32768) 32768,
          CallNewBufferedStorage
            (Cache (LocalWAL (B2 ''acct'' ''key'' ''bucket'' []) ''/mnt/.utahfs/wal'' 32768)
               32768),
          CallNewSimpleBlock
            (BufferedStorage
               (Cache (LocalWAL (B2 ''acct'' ''key'' ''bucket'' []) ''/mnt/.utahfs/wal'' 32768)
                  32768))]
   \<and> Password zero_Client = []
   \<and> fs_result (FS all_succeed zero_Client ''/mnt/utahfs'') = Inl NoProviderConfigured"
  by code_simp

text \<open>
  C2. In every handle that \<open>FS\<close> returns, the application storage sits on the encryption
  wrapper, which is applied to the integrity wrapper, which is applied to the block
  framer: \<open>WithIntegrity\<close> is called first and \<open>WithEncryption\<close> next, on the value that
  \<open>WithIntegrity\<close> returned, both with the configured password. In the chain of layers
  only the filesystem and the application storage are above the encryption layer; the
  integrity layer is directly below it, and no layer further down is an encryption or
  integrity layer. With the wrappers behaving as the specification describes them, a
  block written with content \<open>p\<close> is handed as \<open>p\<close> to the filesystem, the application
  storage and the encryption layer, and as the ciphertext of \<open>p\<close> to the integrity layer
  and to every layer below it; the one digest computed is over that ciphertext; and on
  reading it back every layer from the integrity layer down returns the ciphertext,
  the encryption layer and the layers above it return \<open>p\<close>. \<open>FS\<close> does return a handle
  when the password is set, one credential group is set and every constructor
  succeeds.
\<close>

theorem FS_encryption_outermost:
  "(\<forall>h. fs_result (FS ext c mp) = Inr h \<longrightarrow>
      (\<exists>rel pin numPtrs dataSize.
           h = BlockFilesystem
                 (AppStorage
                    (Encryption
                       (Integrity (SimpleBlock (BufferedStorage rel)) (Password c) pin)
                       (Password c)))
                 numPtrs dataSize
         \<and> layers h = [FilesystemLayer, AppStorageLayer, EncryptionLayer, IntegrityLayer,
                        BlockLayer, BufferingLayer] @ reliable_layers rel
         \<and> EncryptionLayer \<notin> set (reliable_layers rel)
         \<and> IntegrityLayer \<notin> set (reliable_layers rel)
         \<and> (\<exists>before after. fs_calls (FS ext c mp) =
               before
               @ [CallWithIntegrity (SimpleBlock (BufferedStorage rel)) (Password c) pin,
                  CallWithEncryption
                    (Integrity (SimpleBlock (BufferedStorage rel)) (Password c) pin)
                    (Password c)]
               @ after)
         \<and> (\<forall>p. handle_write h p =
               [(FilesystemLayer, p), (AppStorageLayer, p), (EncryptionLayer, p),
                (IntegrityLayer, Ciphertext (Password c) p),
                (BlockLayer, Ciphertext (Password c) p),
                (BufferingLayer, Ciphertext (Password c) p)]
               @ map (\<lambda>l. (l, Ciphertext (Password c) p)) (reliable_layers rel))
         \<and> (\<forall>p. handle_digested h p = [Ciphertext (Password c) p])
         \<and> (\<forall>p. handle_reads h (Ciphertext (Password c) p) (Ciphertext (Password c) p) =
               [(FilesystemLayer, Inr p), (AppStorageLayer, Inr p), (EncryptionLayer, Inr p),
                (IntegrityLayer, Inr (Ciphertext (Password c) p)),
                (BlockLayer, Inr (Ciphertext (Password c) p)),
                (BufferingLayer, Inr (Ciphertext (Password c) p))]
               @ map (\<lambda>l. (l, Inr (Ciphertext (Password c) p))) (reliable_layers rel))))
   \<and> ((\<forall>k. ext k = None) \<and> Password c \<noteq> []
        \<and> (\<exists>sp. StorageProvider c = Some sp \<and> hasB2 sp \<noteq> hasS3 sp)
        \<longrightarrow> (\<exists>h. fs_result (FS ext c mp) = Inr h))"
proof (intro conjI allI impI)
  fix h
  assume ok: "fs_result (FS ext c mp) = Inr h"
  from FS_wrapping_order [OF ok] obtain rel pin numPtrs dataSize where
    shape: "h = BlockFilesystem
                 (AppStorage
                    (Encryption
                       (Integrity (SimpleBlock (BufferedStorage rel)) (Password c) pin)
                       (Password c)))
                 numPtrs dataSize"
    and chain: "layers h = [FilesystemLayer, AppStorageLayer, EncryptionLayer, IntegrityLayer,
                        BlockLayer, BufferingLayer] @ reliable_layers rel"
    and below: "EncryptionLayer \<notin> set (reliable_layers rel)"
      "IntegrityLayer \<notin> set (reliable_layers rel)"
    and order: "\<exists>before after. fs_calls (FS ext c mp) =
               before
               @ [CallWithIntegrity (SimpleBlock (BufferedStorage rel)) (Password c) pin,
                  CallWithEncryption
                    (Integrity (SimpleBlock (BufferedStorage rel)) (Password c) pin)
                    (Password c)]
               @ after"
    by blast
  have written: "handle_write h p =
               [(FilesystemLayer, p), (AppStorageLayer, p), (EncryptionLayer, p),
                (IntegrityLayer, Ciphertext (Password c) p),
                (BlockLayer, Ciphertext (Password c) p),
                (BufferingLayer, Ciphertext (Password c) p)]
               @ map (\<lambda>l. (l, Ciphertext (Password c) p)) (reliable_layers rel)" for p
    by (simp add: shape)
  have digested: "handle_digested h p = [Ciphertext (Password c) p]" for p
    by (simp add: shape)
  have read: "handle_reads h (Ciphertext (Password c) p) (Ciphertext (Password c) p) =
               [(FilesystemLayer, Inr p), (AppStorageLayer, Inr p), (EncryptionLayer, Inr p),
                (IntegrityLayer, Inr (Ciphertext (Password c) p)),
                (BlockLayer, Inr (Ciphertext (Password c) p)),
                (BufferingLayer, Inr (Ciphertext (Password c) p))]
               @ map (\<lambda>l. (l, Inr (Ciphertext (Password c) p))) (reliable_layers rel)" for p
    by (simp add: shape)
  from shape chain below order written digested read
  show "\<exists>rel pin numPtrs dataSize.
           h = BlockFilesystem
                 (AppStorage
                    (Encryption
                       (Integrity (SimpleBlock (BufferedStorage rel)) (Password c) pin)
                       (Password c)))
                 numPtrs dataSize
         \<and> layers h = [FilesystemLayer, AppStorageLayer, EncryptionLayer, IntegrityLayer,
                        BlockLayer, BufferingLayer] @ reliable_layers rel
         \<and> EncryptionLayer \<notin> set (reliable_layers rel)
         \<and> IntegrityLayer \<notin> set (reliable_layers rel)
         \<and> (\<exists>before after. fs_calls (FS ext c mp) =
               before
               @ [CallWithIntegrity (SimpleBlock (BufferedStorage rel)) (Password c) pin,
                  CallWithEncryption
                    (Integrity (SimpleBlock (BufferedStorage rel)) (Password c) pin)
                    (Password c)]
               @ after)
         \<and> (\<forall>p. handle_write h p =
               [(FilesystemLayer, p), (AppStorageLayer, p), (EncryptionLayer, p),
                (IntegrityLayer, Ciphertext (Password c) p),
                (BlockLayer, Ciphertext (Password c) p),
                (BufferingLayer, Ciphertext (Password c) p)]
               @ map (\<lambda>l. (l, Ciphertext (Password c) p)) (reliable_layers rel))
         \<and> (\<forall>p. handle_digested h p = [Ciphertext (Password c) p])
         \<and> (\<forall>p. handle_reads h (Ciphertext (Password c) p) (Ciphertext (Password c) p) =
               [(FilesystemLayer, Inr p), (AppStorageLayer, Inr p), (EncryptionLayer, Inr p),
                (IntegrityLayer, Inr (Ciphertext (Password c) p)),
                (BlockLayer, Inr (Ciphertext (Password c) p)),
                (BufferingLayer, Inr (Ciphertext (Password c) p))]
               @ map (\<lambda>l. (l, Inr (Ciphertext (Password c) p))) (reliable_layers rel))"
    by (intro exI [of _ rel] exI [of _ pin] exI [of _ numPtrs] exI [of _ dataSize] conjI allI)
next
  assume "(\<forall>k. ext k = None) \<and> Password c \<noteq> []
        \<and> (\<exists>sp. StorageProvider c = Some sp \<and> hasB2 sp \<noteq> hasS3 sp)"
  then show "\<exists>h. fs_result (FS ext c mp) = Inr h"
    using FS_composes [of ext c _ mp] by blast
qed

theorem FS_encryption_outermost_witness:
  "fs_result (FS all_succeed example_client ''/mnt/utahfs'')
     = Inr (BlockFilesystem
              (AppStorage
                 (Encryption
                    (Integrity
                       (SimpleBlock
                          (BufferedStorage
                             (Cache
                                (LocalWAL (B2 ''acct'' ''key'' ''bucket'' [])
                                   ''/mnt/.utahfs/wal'' 32768)
                                32768)))
                       ''secret'' ''/mnt/.utahfs/pin.json'')
                    ''secret''))
              12 32768)
   \<and> (\<exists>h. fs_result (FS all_succeed example_client ''/mnt/utahfs'') = Inr h)
   \<and> handle_digested
         (BlockFilesystem
              (AppStorage
                 (Encryption
                    (Integrity
                       (SimpleBlock
                          (BufferedStorage
                             (Cache
                                (LocalWAL (B2 ''acct'' ''key'' ''bucket'' [])
                                   ''/mnt/.utahfs/wal'' 32768)
                                32768)))
                       ''secret'' ''/mnt/.utahfs/pin.json'')
                    ''secret''))
              12 32768)
         (Plaintext ''data'')
       = [Ciphertext ''secret'' (Plaintext ''data'')]"
  (is "?run = Inr ?h \<and> ?returns \<and> ?digest")
proof -
  have run: "?run = Inr ?h" by code_simp
  have pw: "Password example_client = ''secret''"
    by (simp add: example_client_def)
  have inputs: "(\<forall>k. all_succeed k = None) \<and> Password example_client \<noteq> []
      \<and> (\<exists>sp. StorageProvider example_client = Some sp \<and> hasB2 sp \<noteq> hasS3 sp)"
    by (simp add: all_succeed_def example_client_def example_provider_def
          zero_StorageProvider_def hasB2_def hasS3_def)
  note inst = FS_encryption_outermost [where ext = all_succeed and c = example_client
      and mp = "''/mnt/utahfs''"]
  from inst [THEN conjunct2] inputs have returns: ?returns
    by (rule mp)
  from inst [THEN conjunct1, rule_format, OF run]
  obtain rel pin numPtrs dataSize where
    "\<forall>p. handle_digested ?h p = [Ciphertext (Password example_client) p]"
    by (elim exE conjE)
  then have ?digest by (simp add: pw)
  with run returns show ?thesis by (intro conjI)
qed

text \<open>
  C6. Once \<open>Store\<close> has returned a backend, \<open>NewLocalWAL\<close> is called with the WAL
  capacity, or with \<open>64 * 512\<close> where it was zero, and the record holds that value. Once
  the WAL is there, the record holds the cache capacity, or \<open>32 * 1024\<close> where it was
  zero, and \<open>NewCache\<close> is called with it unless the capacity is \<open>-1\<close>. Once the
  encryption wrapper is there, the record holds the pointer count, or 12 where it was
  zero, and the data size, or \<open>32 * 1024\<close> where it was zero, and
  \<open>NewBlockFilesystem\<close> is called with them; if it succeeds, the handle built with these
  values is returned. No call of a run carries another value, \<open>NewCache\<close> is never called
  when the capacity is \<open>-1\<close>, and the chain of a returned handle has a cache layer
  exactly when the capacity is not \<open>-1\<close>.
\<close>

theorem FS_sizing_defaults:
  fixes ext :: externals and c :: Client and mp :: string
  defines "wsize \<equiv> if MaxWALSize c = 0 then 64 * 512 else MaxWALSize c"
  defines "csize \<equiv> if CacheSize c = 0 then 32 * 1024 else CacheSize c"
  defines "nptrs \<equiv> if NumPtrs c = 0 then 12 else NumPtrs c"
  defines "dsize \<equiv> if DataSize c = 0 then 32 * 1024 else DataSize c"
  defines "dir \<equiv> if DataDir c = [] then Join [Dir mp, ''.utahfs''] else DataDir c"
  defines "wal \<equiv> \<lambda>store. LocalWAL store (Join [dir, ''wal'']) wsize"
  defines "kwal \<equiv> \<lambda>store. CallNewLocalWAL store (Join [dir, ''wal'']) wsize"
  defines "kcache \<equiv> \<lambda>store. CallNewCache (wal store) csize"
  defines "rel \<equiv> \<lambda>store. if CacheSize c \<noteq> - 1 then Cache (wal store) csize else wal store"
  defines "intg \<equiv> \<lambda>store. Integrity (SimpleBlock (BufferedStorage (rel store))) (Password c)
                              (Join [dir, ''pin.json''])"
  defines "kint \<equiv> \<lambda>store. CallWithIntegrity (SimpleBlock (BufferedStorage (rel store)))
                              (Password c) (Join [dir, ''pin.json''])"
  defines "kenc \<equiv> \<lambda>store. CallWithEncryption (intg store) (Password c)"
  defines "app \<equiv> \<lambda>store. AppStorage (Encryption (intg store) (Password c))"
  defines "kfs \<equiv> \<lambda>store. CallNewBlockFilesystem (app store) nptrs dsize"
  shows "(\<forall>store t. Store ext (StorageProvider c) = (Inr store, t) \<longrightarrow>
            kwal store \<in> set (fs_calls (FS ext c mp))
            \<and> MaxWALSize (fs_config (FS ext c mp)) = wsize)
       \<and> (\<forall>store t. Store ext (StorageProvider c) = (Inr store, t) \<and> ext (kwal store) = None \<longrightarrow>
            CacheSize (fs_config (FS ext c mp)) = csize
            \<and> (CacheSize c \<noteq> - 1 \<longrightarrow> kcache store \<in> set (fs_calls (FS ext c mp))))
       \<and> (\<forall>store t. Store ext (StorageProvider c) = (Inr store, t) \<and> ext (kwal store) = None
            \<and> (CacheSize c = - 1 \<or> ext (kcache store) = None) \<and> Password c \<noteq> []
            \<and> ext (kint store) = None \<and> ext (kenc store) = None \<longrightarrow>
            NumPtrs (fs_config (FS ext c mp)) = nptrs
            \<and> DataSize (fs_config (FS ext c mp)) = dsize
            \<and> kfs store \<in> set (fs_calls (FS ext c mp)))
       \<and> (\<forall>store t. Store ext (StorageProvider c) = (Inr store, t) \<and> ext (kwal store) = None
            \<and> (CacheSize c = - 1 \<or> ext (kcache store) = None) \<and> Password c \<noteq> []
            \<and> ext (kint store) = None \<and> ext (kenc store) = None \<and> ext (kfs store) = None \<longrightarrow>
            fs_result (FS ext c mp) = Inr (BlockFilesystem (app store) nptrs dsize))
       \<and> (\<forall>base loc n. CallNewLocalWAL base loc n \<in> set (fs_calls (FS ext c mp)) \<longrightarrow>
            n = (if MaxWALSize c = 0 then 64 * 512 else MaxWALSize c))
       \<and> (\<forall>base n. CallNewCache base n \<in> set (fs_calls (FS ext c mp)) \<longrightarrow>
            CacheSize c \<noteq> - 1 \<and> n = (if CacheSize c = 0 then 32 * 1024 else CacheSize c))
       \<and> (\<forall>base np ds. CallNewBlockFilesystem base np ds \<in> set (fs_calls (FS ext c mp)) \<longrightarrow>
            np = (if NumPtrs c = 0 then 12 else NumPtrs c)
            \<and> ds = (if DataSize c = 0 then 32 * 1024 else DataSize c))
       \<and> (\<forall>h. fs_result (FS ext c mp) = Inr h \<longrightarrow>
             MaxWALSize (fs_config (FS ext c mp))
               = (if MaxWALSize c = 0 then 64 * 512 else MaxWALSize c)
           \<and> CacheSize (fs_config (FS ext c mp))
               = (if CacheSize c = 0 then 32 * 1024 else CacheSize c)
           \<and> NumPtrs (fs_config (FS ext c mp)) = (if NumPtrs c = 0 then 12 else NumPtrs c)
           \<and> DataSize (fs_config (FS ext c mp))
               = (if DataSize c = 0 then 32 * 1024 else DataSize c)
           \<and> (\<exists>store loc pin.
                 h = BlockFilesystem
                       (AppStorage (Encryption (Integrity (SimpleBlock (BufferedStorage
                          (if CacheSize c = - 1
                           then LocalWAL store loc
                                  (if MaxWALSize c = 0 then 64 * 512 else MaxWALSize c)
                           else Cache (LocalWAL store loc
                                  (if MaxWALSize c = 0 then 64 * 512 else MaxWALSize c))
                                  (if CacheSize c = 0 then 32 * 1024 else CacheSize c))))
                          (Password c) pin) (Password c)))
                       (if NumPtrs c = 0 then 12 else NumPtrs c)
                       (if DataSize c = 0 then 32 * 1024 else DataSize c))
           \<and> (CacheLayer \<in> set (layers h) \<longleftrightarrow> CacheSize c \<noteq> - 1))"
proof -
  note defs = wsize_def csize_def nptrs_def dsize_def dir_def wal_def kwal_def kcache_def rel_def
    intg_def kint_def kenc_def app_def kfs_def
  have F1: "\<forall>store t. Store ext (StorageProvider c) = (Inr store, t) \<longrightarrow>
            kwal store \<in> set (fs_calls (FS ext c mp))
            \<and> MaxWALSize (fs_config (FS ext c mp)) = wsize"
  proof (intro allI impI)
    fix store t
    assume st: "Store ext (StorageProvider c) = (Inr store, t)"
    from FS_reaches(1) [OF st, of mp]
    show "kwal store \<in> set (fs_calls (FS ext c mp))
            \<and> MaxWALSize (fs_config (FS ext c mp)) = wsize"
      unfolding defs apply_defaults_fields .
  qed
  have F2: "\<forall>store t. Store ext (StorageProvider c) = (Inr store, t) \<and> ext (kwal store) = None \<longrightarrow>
            CacheSize (fs_config (FS ext c mp)) = csize
            \<and> (CacheSize c \<noteq> - 1 \<longrightarrow> kcache store \<in> set (fs_calls (FS ext c mp)))"
  proof (intro allI impI, elim conjE)
    fix store t
    assume st: "Store ext (StorageProvider c) = (Inr store, t)" and w: "ext (kwal store) = None"
    from FS_reaches(2) [OF st, of mp] w
    show "CacheSize (fs_config (FS ext c mp)) = csize
            \<and> (CacheSize c \<noteq> - 1 \<longrightarrow> kcache store \<in> set (fs_calls (FS ext c mp)))"
      unfolding defs apply_defaults_fields by blast
  qed
  have F3: "\<forall>store t. Store ext (StorageProvider c) = (Inr store, t) \<and> ext (kwal store) = None
            \<and> (CacheSize c = - 1 \<or> ext (kcache store) = None) \<and> Password c \<noteq> []
            \<and> ext (kint store) = None \<and> ext (kenc store) = None \<longrightarrow>
            NumPtrs (fs_config (FS ext c mp)) = nptrs
            \<and> DataSize (fs_config (FS ext c mp)) = dsize
            \<and> kfs store \<in> set (fs_calls (FS ext c mp))"
  proof (intro allI impI, elim conjE)
    fix store t
    assume st: "Store ext (StorageProvider c) = (Inr store, t)" and a: "ext (kwal store) = None"
      "CacheSize c = - 1 \<or> ext (kcache store) = None" "Password c \<noteq> []"
      "ext (kint store) = None" "ext (kenc store) = None"
    from FS_reaches(3) [OF st, of mp] a
    show "NumPtrs (fs_config (FS ext c mp)) = nptrs
            \<and> DataSize (fs_config (FS ext c mp)) = dsize
            \<and> kfs store \<in> set (fs_calls (FS ext c mp))"
      unfolding defs apply_defaults_fields by blast
  qed
  have F4: "\<forall>store t. Store ext (StorageProvider c) = (Inr store, t) \<and> ext (kwal store) = None
            \<and> (CacheSize c = - 1 \<or> ext (kcache store) = None) \<and> Password c \<noteq> []
            \<and> ext (kint store) = None \<and> ext (kenc store) = None \<and> ext (kfs store) = None \<longrightarrow>
            fs_result (FS ext c mp) = Inr (BlockFilesystem (app store) nptrs dsize)"
  proof (intro allI impI, elim conjE)
    fix store t
    assume st: "Store ext (StorageProvider c) = (Inr store, t)" and a: "ext (kwal store) = None"
      "CacheSize c = - 1 \<or> ext (kcache store) = None" "Password c \<noteq> []"
      "ext (kint store) = None" "ext (kenc store) = None" "ext (kfs store) = None"
    have "FS ext c mp = \<lparr>fs_result = Inr (BlockFilesystem (app store) nptrs dsize),
        fs_config = apply_defaults c mp,
        fs_calls = t @ ([kwal store] @ (if CacheSize c \<noteq> - 1 then [kcache store] else [])
           @ [CallNewBufferedStorage (rel store), CallNewSimpleBlock (BufferedStorage (rel store))])
           @ [kint store, kenc store,
              CallNewAppStorage (Encryption (intg store) (Password c)), kfs store]\<rparr>"
      using FS_table(7) [OF st, of mp] a unfolding defs apply_defaults_fields by blast
    then show "fs_result (FS ext c mp) = Inr (BlockFilesystem (app store) nptrs dsize)"
      by simp
  qed
  show ?thesis
    by (rule conjI [OF F1 conjI [OF F2 conjI [OF F3 conjI [OF F4 FS_sizing_used]]]])
qed

theorem FS_sizing_defaults_witness:
  "fs_result (FS all_succeed example_client ''/mnt/utahfs'')
     = Inr (BlockFilesystem
              (AppStorage
                 (Encryption
                    (Integrity
                       (SimpleBlock
                          (BufferedStorage
                             (Cache
                                (LocalWAL (B2 ''acct'' ''key'' ''bucket'' [])
                                   ''/mnt/.utahfs/wal'' (64 * 512))
                                (32 * 1024))))
                       ''secret'' ''/mnt/.utahfs/pin.json'')
                    ''secret''))
              12 (32 * 1024))
   \<and> MaxWALSize (fs_config (FS all_succeed example_client ''/mnt/utahfs'')) = 64 * 512
   \<and> CacheSize (fs_config (FS all_succeed example_client ''/mnt/utahfs'')) = 32 * 1024
   \<and> NumPtrs (fs_config (FS all_succeed example_client ''/mnt/utahfs'')) = 12
   \<and> DataSize (fs_config (FS all_succeed example_client ''/mnt/utahfs'')) = 32 * 1024
   \<and> fs_result (FS all_succeed (example_client\<lparr>CacheSize := - 1\<rparr>) ''/mnt/utahfs'')
     = Inr (BlockFilesystem
              (AppStorage
                 (Encryption
                    (Integrity
                       (SimpleBlock
                          (BufferedStorage
                             (LocalWAL (B2 ''acct'' ''key'' ''bucket'' [])
                                ''/mnt/.utahfs/wal'' 32768)))
                       ''secret'' ''/mnt/.utahfs/pin.json'')
                    ''secret''))
              12 32768)
   \<and> CacheLayer \<notin> set (layers (BlockFilesystem
              (AppStorage
                 (Encryption
                    (Integrity
                       (SimpleBlock
                          (BufferedStorage
                             (LocalWAL (B2 ''acct'' ''key'' ''bucket'' [])
                                ''/mnt/.utahfs/wal'' 32768)))
                       ''secret'' ''/mnt/.utahfs/pin.json'')
                    ''secret''))
              12 32768))"
  (is "?composed \<and> ?wal \<and> ?cache \<and> ?ptrs \<and> ?data \<and> ?run = Inr ?h \<and> ?nocache")
proof -
  let ?b2 = "B2 ''acct'' ''key'' ''bucket'' []"
  let ?t = "[CallNewB2 ''acct'' ''key'' ''bucket'' []]"
  let ?d = "example_client\<lparr>CacheSize := - 1\<rparr>"
  have connected: "Store all_succeed (StorageProvider example_client) = (Inr ?b2, ?t)"
    by code_simp
  have ok: "all_succeed k = None" for k
    by (simp add: all_succeed_def)
  have unset: "MaxWALSize example_client = 0" "CacheSize example_client = 0"
      "NumPtrs example_client = 0" "DataSize example_client = 0" "DataDir example_client = []"
      "Password example_client = ''secret''"
    by (simp_all add: example_client_def zero_Client_def)
  have dir: "Join [Join [Dir ''/mnt/utahfs'', ''.utahfs''], ''wal''] = ''/mnt/.utahfs/wal''"
      "Join [Join [Dir ''/mnt/utahfs'', ''.utahfs''], ''pin.json''] = ''/mnt/.utahfs/pin.json''"
    by code_simp+
  note inst = FS_sizing_defaults [where ext = all_succeed and c = example_client
      and mp = "''/mnt/utahfs''"]
  have ?wal
    using inst [THEN conjunct1, rule_format, of ?b2 ?t] connected unset by simp
  moreover have ?cache
    using inst [THEN conjunct2, THEN conjunct1, rule_format, of ?b2 ?t] connected unset ok
    by simp
  moreover have "?ptrs \<and> ?data"
    using inst [THEN conjunct2, THEN conjunct2, THEN conjunct1, rule_format, of ?b2 ?t]
      connected unset ok
    by simp
  moreover have ?composed
    using inst [THEN conjunct2, THEN conjunct2, THEN conjunct2, THEN conjunct1, rule_format,
        of ?b2 ?t]
    by (simp add: connected ok unset dir del: Join.simps)
  moreover have run: "?run = Inr ?h" by code_simp
  moreover have ?nocache
  proof -
    have "CacheSize ?d = - 1" by simp
    with FS_sizing_defaults [where ext = all_succeed and c = ?d and mp = "''/mnt/utahfs''",
        THEN conjunct2, THEN conjunct2, THEN conjunct2, THEN conjunct2, THEN conjunct2,
        THEN conjunct2, THEN conjunct2, rule_format, OF run]
    show ?thesis by simp
  qed
  ultimately show ?thesis by (intro conjI) simp_all
qed

text \<open>
  C7, as the code has it. When \<open>FS\<close> fails it returns the error and no handle; a handle
  is returned only by the run in which every step succeeded, and it is the complete
  chain. The configuration record is not left as it was: \<open>FS\<close> assigns each default in
  place when it reaches the corresponding step, so the record after the call is decided
  by the step at which the run ended. If \<open>Store\<close> fails, only the data directory has been
  derived (where it was empty). If \<open>NewLocalWAL\<close> fails, the WAL capacity has been
  defaulted as well. If \<open>NewCache\<close> fails, the password is empty, or \<open>WithIntegrity\<close> or
  \<open>WithEncryption\<close> fails, the cache capacity too. If \<open>NewBlockFilesystem\<close> fails, or
  the run succeeds, all five defaults have been applied. The storage provider and the
  password are never assigned, and a record whose data directory and sizing fields
  are all set is returned unchanged.
\<close>

theorem FS_failure_effect:
  fixes ext :: externals and c :: Client and mp :: string
  defines "c1 \<equiv> default_DataDir c mp"
  defines "c2 \<equiv> default_MaxWALSize c1"
  defines "c3 \<equiv> default_CacheSize c2"
  defines "c' \<equiv> apply_defaults c mp"
  defines "wal \<equiv> \<lambda>store. LocalWAL store (Join [DataDir c', ''wal'']) (MaxWALSize c')"
  defines "kwal \<equiv> \<lambda>store. CallNewLocalWAL store (Join [DataDir c', ''wal'']) (MaxWALSize c')"
  defines "kcache \<equiv> \<lambda>store. CallNewCache (wal store) (CacheSize c')"
  defines "blk \<equiv> \<lambda>store. SimpleBlock (BufferedStorage
                    (if CacheSize c \<noteq> - 1 then Cache (wal store) (CacheSize c') else wal store))"
  defines "intg \<equiv> \<lambda>store. Integrity (blk store) (Password c) (Join [DataDir c', ''pin.json''])"
  defines "kint \<equiv> \<lambda>store. CallWithIntegrity (blk store) (Password c)
                              (Join [DataDir c', ''pin.json''])"
  defines "kenc \<equiv> \<lambda>store. CallWithEncryption (intg store) (Password c)"
  defines "app \<equiv> \<lambda>store. AppStorage (Encryption (intg store) (Password c))"
  defines "kfs \<equiv> \<lambda>store. CallNewBlockFilesystem (app store) (NumPtrs c') (DataSize c')"
  defines "lower_ok \<equiv> \<lambda>store. ext (kwal store) = None
                                  \<and> (CacheSize c = - 1 \<or> ext (kcache store) = None)"
  shows "(\<forall>err t. Store ext (StorageProvider c) = (Inl err, t) \<longrightarrow>
            fs_result (FS ext c mp) = Inl err \<and> fs_config (FS ext c mp) = c1)
       \<and> (\<forall>store t msg.
            Store ext (StorageProvider c) = (Inr store, t) \<and> ext (kwal store) = Some msg \<longrightarrow>
            fs_result (FS ext c mp) = Inl (External msg) \<and> fs_config (FS ext c mp) = c2)
       \<and> (\<forall>store t msg.
            Store ext (StorageProvider c) = (Inr store, t) \<and> ext (kwal store) = None
            \<and> CacheSize c \<noteq> - 1 \<and> ext (kcache store) = Some msg \<longrightarrow>
            fs_result (FS ext c mp) = Inl (External msg) \<and> fs_config (FS ext c mp) = c3)
       \<and> (\<forall>store t.
            Store ext (StorageProvider c) = (Inr store, t) \<and> lower_ok store
            \<and> Password c = [] \<longrightarrow>
            fs_result (FS ext c mp) = Inl MissingCredential \<and> fs_config (FS ext c mp) = c3)
       \<and> (\<forall>store t msg.
            Store ext (StorageProvider c) = (Inr store, t) \<and> lower_ok store
            \<and> Password c \<noteq> [] \<and> ext (kint store) = Some msg \<longrightarrow>
            fs_result (FS ext c mp) = Inl (External msg) \<and> fs_config (FS ext c mp) = c3)
       \<and> (\<forall>store t msg.
            Store ext (StorageProvider c) = (Inr store, t) \<and> lower_ok store
            \<and> Password c \<noteq> [] \<and> ext (kint store) = None \<and> ext (kenc store) = Some msg \<longrightarrow>
            fs_result (FS ext c mp) = Inl (External msg) \<and> fs_config (FS ext c mp) = c3)
       \<and> (\<forall>store t msg.
            Store ext (StorageProvider c) = (Inr store, t) \<and> lower_ok store
            \<and> Password c \<noteq> [] \<and> ext (kint store) = None \<and> ext (kenc store) = None
            \<and> ext (kfs store) = Some msg \<longrightarrow>
            fs_result (FS ext c mp) = Inl (External msg) \<and> fs_config (FS ext c mp) = c')
       \<and> (\<forall>store t.
            Store ext (StorageProvider c) = (Inr store, t) \<and> lower_ok store
            \<and> Password c \<noteq> [] \<and> ext (kint store) = None \<and> ext (kenc store) = None
            \<and> ext (kfs store) = None \<longrightarrow>
            fs_result (FS ext c mp) = Inr (BlockFilesystem (app store) (NumPtrs c') (DataSize c'))
            \<and> fs_config (FS ext c mp) = c')
       \<and> (\<forall>err. fs_result (FS ext c mp) = Inl err \<longrightarrow>
            StorageProvider (fs_config (FS ext c mp)) = StorageProvider c
          \<and> Password (fs_config (FS ext c mp)) = Password c
          \<and> DataDir (fs_config (FS ext c mp))
              = (if DataDir c = [] then Join [Dir mp, ''.utahfs''] else DataDir c)
          \<and> (MaxWALSize (fs_config (FS ext c mp)) = MaxWALSize c
               \<or> MaxWALSize c = 0 \<and> MaxWALSize (fs_config (FS ext c mp)) = 64 * 512)
          \<and> (CacheSize (fs_config (FS ext c mp)) = CacheSize c
               \<or> CacheSize c = 0 \<and> CacheSize (fs_config (FS ext c mp)) = 32 * 1024)
          \<and> (NumPtrs (fs_config (FS ext c mp)) = NumPtrs c
               \<or> NumPtrs c = 0 \<and> NumPtrs (fs_config (FS ext c mp)) = 12)
          \<and> (DataSize (fs_config (FS ext c mp)) = DataSize c
               \<or> DataSize c = 0 \<and> DataSize (fs_config (FS ext c mp)) = 32 * 1024)
          \<and> (DataDir c \<noteq> [] \<and> MaxWALSize c \<noteq> 0 \<and> CacheSize c \<noteq> 0 \<and> NumPtrs c \<noteq> 0
               \<and> DataSize c \<noteq> 0 \<longrightarrow> fs_config (FS ext c mp) = c))"
proof -
  note defs = c1_def c2_def c3_def c'_def wal_def kwal_def kcache_def blk_def intg_def kint_def
    kenc_def app_def kfs_def lower_ok_def
  have R1: "\<forall>err t. Store ext (StorageProvider c) = (Inl err, t) \<longrightarrow>
            fs_result (FS ext c mp) = Inl err \<and> fs_config (FS ext c mp) = c1"
    using FS_table_store_fails [of ext c _ _ mp] by (simp add: defs)
  have R2: "\<forall>store t msg.
            Store ext (StorageProvider c) = (Inr store, t) \<and> ext (kwal store) = Some msg \<longrightarrow>
            fs_result (FS ext c mp) = Inl (External msg) \<and> fs_config (FS ext c mp) = c2"
  proof (intro allI impI, elim conjE)
    fix store t msg
    assume st: "Store ext (StorageProvider c) = (Inr store, t)" and "ext (kwal store) = Some msg"
    then show "fs_result (FS ext c mp) = Inl (External msg) \<and> fs_config (FS ext c mp) = c2"
      using FS_table(1) [OF st, of mp msg] unfolding defs by (simp del: Join.simps)
  qed
  have R3: "\<forall>store t msg.
            Store ext (StorageProvider c) = (Inr store, t) \<and> ext (kwal store) = None
            \<and> CacheSize c \<noteq> - 1 \<and> ext (kcache store) = Some msg \<longrightarrow>
            fs_result (FS ext c mp) = Inl (External msg) \<and> fs_config (FS ext c mp) = c3"
  proof (intro allI impI, elim conjE)
    fix store t msg
    assume st: "Store ext (StorageProvider c) = (Inr store, t)" and "ext (kwal store) = None"
      "CacheSize c \<noteq> - 1" "ext (kcache store) = Some msg"
    then show "fs_result (FS ext c mp) = Inl (External msg) \<and> fs_config (FS ext c mp) = c3"
      using FS_table(2) [OF st, of mp msg] unfolding defs by (simp del: Join.simps)
  qed
  have R4: "\<forall>store t.
            Store ext (StorageProvider c) = (Inr store, t) \<and> lower_ok store
            \<and> Password c = [] \<longrightarrow>
            fs_result (FS ext c mp) = Inl MissingCredential \<and> fs_config (FS ext c mp) = c3"
  proof (intro allI impI, elim conjE)
    fix store t
    assume st: "Store ext (StorageProvider c) = (Inr store, t)" and "lower_ok store"
      "Password c = []"
    then show "fs_result (FS ext c mp) = Inl MissingCredential \<and> fs_config (FS ext c mp) = c3"
      using FS_table(3) [OF st, of mp] unfolding defs by (simp del: Join.simps)
  qed
  have R5: "\<forall>store t msg.
            Store ext (StorageProvider c) = (Inr store, t) \<and> lower_ok store
            \<and> Password c \<noteq> [] \<and> ext (kint store) = Some msg \<longrightarrow>
            fs_result (FS ext c mp) = Inl (External msg) \<and> fs_config (FS ext c mp) = c3"
  proof (intro allI impI, elim conjE)
    fix store t msg
    assume st: "Store ext (StorageProvider c) = (Inr store, t)" and "lower_ok store"
      "Password c \<noteq> []" "ext (kint store) = Some msg"
    then show "fs_result (FS ext c mp) = Inl (External msg) \<and> fs_config (FS ext c mp) = c3"
      using FS_table(4) [OF st, of mp msg] unfolding defs by (simp del: Join.simps)
  qed
  have R6: "\<forall>store t msg.
            Store ext (StorageProvider c) = (Inr store, t) \<and> lower_ok store
            \<and> Password c \<noteq> [] \<and> ext (kint store) = None \<and> ext (kenc store) = Some msg \<longrightarrow>
            fs_result (FS ext c mp) = Inl (External msg) \<and> fs_config (FS ext c mp) = c3"
  proof (intro allI impI, elim conjE)
    fix store t msg
    assume st: "Store ext (StorageProvider c) = (Inr store, t)" and "lower_ok store"
      "Password c \<noteq> []" "ext (kint store) = None" "ext (kenc store) = Some msg"
    then show "fs_result (FS ext c mp) = Inl (External msg) \<and> fs_config (FS ext c mp) = c3"
      using FS_table(5) [OF st, of mp msg] unfolding defs by (simp del: Join.simps)
  qed
  have R7: "\<forall>store t msg.
            Store ext (StorageProvider c) = (Inr store, t) \<and> lower_ok store
            \<and> Password c \<noteq> [] \<and> ext (kint store) = None \<and> ext (kenc store) = None
            \<and> ext (kfs store) = Some msg \<longrightarrow>
            fs_result (FS ext c mp) = Inl (External msg) \<and> fs_config (FS ext c mp) = c'"
  proof (intro allI impI, elim conjE)
    fix store t msg
    assume st: "Store ext (StorageProvider c) = (Inr store, t)" and "lower_ok store"
      "Password c \<noteq> []" "ext (kint store) = None" "ext (kenc store) = None"
      "ext (kfs store) = Some msg"
    then show "fs_result (FS ext c mp) = Inl (External msg) \<and> fs_config (FS ext c mp) = c'"
      using FS_table(6) [OF st, of mp msg] unfolding defs by (simp del: Join.simps)
  qed
  have R8: "\<forall>store t.
            Store ext (StorageProvider c) = (Inr store, t) \<and> lower_ok store
            \<and> Password c \<noteq> [] \<and> ext (kint store) = None \<and> ext (kenc store) = None
            \<and> ext (kfs store) = None \<longrightarrow>
            fs_result (FS ext c mp) = Inr (BlockFilesystem (app store) (NumPtrs c') (DataSize c'))
            \<and> fs_config (FS ext c mp) = c'"
  proof (intro allI impI, elim conjE)
    fix store t
    assume st: "Store ext (StorageProvider c) = (Inr store, t)" and "lower_ok store"
      "Password c \<noteq> []" "ext (kint store) = None" "ext (kenc store) = None"
      "ext (kfs store) = None"
    then show "fs_result (FS ext c mp)
                 = Inr (BlockFilesystem (app store) (NumPtrs c') (DataSize c'))
               \<and> fs_config (FS ext c mp) = c'"
      using FS_table(7) [OF st, of mp] unfolding defs by (simp del: Join.simps)
  qed
  have R9: "\<forall>err. fs_result (FS ext c mp) = Inl err \<longrightarrow>
            StorageProvider (fs_config (FS ext c mp)) = StorageProvider c
          \<and> Password (fs_config (FS ext c mp)) = Password c
          \<and> DataDir (fs_config (FS ext c mp))
              = (if DataDir c = [] then Join [Dir mp, ''.utahfs''] else DataDir c)
          \<and> (MaxWALSize (fs_config (FS ext c mp)) = MaxWALSize c
               \<or> MaxWALSize c = 0 \<and> MaxWALSize (fs_config (FS ext c mp)) = 64 * 512)
          \<and> (CacheSize (fs_config (FS ext c mp)) = CacheSize c
               \<or> CacheSize c = 0 \<and> CacheSize (fs_config (FS ext c mp)) = 32 * 1024)
          \<and> (NumPtrs (fs_config (FS ext c mp)) = NumPtrs c
               \<or> NumPtrs c = 0 \<and> NumPtrs (fs_config (FS ext c mp)) = 12)
          \<and> (DataSize (fs_config (FS ext c mp)) = DataSize c
               \<or> DataSize c = 0 \<and> DataSize (fs_config (FS ext c mp)) = 32 * 1024)
          \<and> (DataDir c \<noteq> [] \<and> MaxWALSize c \<noteq> 0 \<and> CacheSize c \<noteq> 0 \<and> NumPtrs c \<noteq> 0
               \<and> DataSize c \<noteq> 0 \<longrightarrow> fs_config (FS ext c mp) = c)"
    using FS_failure_fields [where ext = ext and c = c and mp = mp] by (intro allI impI)
  show ?thesis
    by (rule conjI [OF R1 conjI [OF R2 conjI [OF R3 conjI [OF R4 conjI [OF R5 conjI [OF R6
          conjI [OF R7 conjI [OF R8 R9]]]]]]]])
qed

theorem FS_failure_effect_witness:
  "fs_result (FS all_succeed zero_Client ''/mnt/utahfs'') = Inl NoProviderConfigured
   \<and> fs_config (FS all_succeed zero_Client ''/mnt/utahfs'')
       = zero_Client\<lparr>DataDir := ''/mnt/.utahfs''\<rparr>
   \<and> fs_result (FS wal_unavailable example_client ''/mnt/utahfs'')
       = Inl (External ''wal: permission denied'')
   \<and> fs_config (FS wal_unavailable example_client ''/mnt/utahfs'')
       = example_client\<lparr>DataDir := ''/mnt/.utahfs'', MaxWALSize := 64 * 512\<rparr>"
proof -
  let ?b2 = "B2 ''acct'' ''key'' ''bucket'' []"
  let ?t = "[CallNewB2 ''acct'' ''key'' ''bucket'' []]"
  have none: "Store all_succeed (StorageProvider zero_Client) = (Inl NoProviderConfigured, [])"
    by code_simp
  have connected: "Store wal_unavailable (StorageProvider example_client) = (Inr ?b2, ?t)"
    by code_simp
  have refused: "wal_unavailable (CallNewLocalWAL base loc n) = Some ''wal: permission denied''"
    for base loc n
    by (simp add: wal_unavailable_def)
  have dir: "Join [Dir ''/mnt/utahfs'', ''.utahfs''] = ''/mnt/.utahfs''"
    by code_simp
  have first: "default_DataDir zero_Client ''/mnt/utahfs''
      = zero_Client\<lparr>DataDir := ''/mnt/.utahfs''\<rparr>"
    by (simp add: default_DataDir_def dir zero_Client_def del: Join.simps)
  have second: "default_MaxWALSize (default_DataDir example_client ''/mnt/utahfs'')
      = example_client\<lparr>DataDir := ''/mnt/.utahfs'', MaxWALSize := 64 * 512\<rparr>"
    by (simp add: default_MaxWALSize_def default_DataDir_def dir example_client_def
          zero_Client_def del: Join.simps)
  have "fs_result (FS all_succeed zero_Client ''/mnt/utahfs'') = Inl NoProviderConfigured
      \<and> fs_config (FS all_succeed zero_Client ''/mnt/utahfs'')
          = default_DataDir zero_Client ''/mnt/utahfs''"
    using FS_failure_effect [where ext = all_succeed and c = zero_Client
        and mp = "''/mnt/utahfs''", THEN conjunct1, rule_format, OF none] .
  moreover have "fs_result (FS wal_unavailable example_client ''/mnt/utahfs'')
        = Inl (External ''wal: permission denied'')
      \<and> fs_config (FS wal_unavailable example_client ''/mnt/utahfs'')
          = default_MaxWALSize (default_DataDir example_client ''/mnt/utahfs'')"
    using FS_failure_effect [where ext = wal_unavailable and c = example_client
        and mp = "''/mnt/utahfs''", THEN conjunct2, THEN conjunct1, rule_format,
        of ?b2 ?t "''wal: permission denied''"]
    by (simp add: connected refused)
  ultimately show ?thesis by (simp add: first second)
qed

text \<open>
  The specification's sentence does not hold on the code: on the zero configuration
  \<open>FS\<close> fails with the no-provider error, and the record it leaves has the data
  directory filled in.
\<close>

theorem FS_failure_effect_counterexample:
  "fs_result (FS all_succeed zero_Client ''/mnt/utahfs'') = Inl NoProviderConfigured
   \<and> DataDir zero_Client = []
   \<and> DataDir (fs_config (FS all_succeed zero_Client ''/mnt/utahfs'')) = ''/mnt/.utahfs''
   \<and> fs_config (FS all_succeed zero_Client ''/mnt/utahfs'') \<noteq> zero_Client"
proof -
  have run: "fs_result (FS all_succeed zero_Client ''/mnt/utahfs'') = Inl NoProviderConfigured"
    by code_simp
  have before: "DataDir zero_Client = []"
    by (simp add: zero_Client_def)
  have after: "DataDir (fs_config (FS all_succeed zero_Client ''/mnt/utahfs'')) = ''/mnt/.utahfs''"
    by code_simp
  from before after have "fs_config (FS all_succeed zero_Client ''/mnt/utahfs'') \<noteq> zero_Client"
    by auto
  with run before after show ?thesis by blast
qed

text \<open>
  C8. Applying the five defaults to a record that already went through them changes no
  field. A complete run of \<open>FS\<close> leaves exactly the defaulted record; running \<open>FS\<close> on
  a defaulted record leaves it as it is, whatever the collaborators do; and with
  collaborators that behave the same, running \<open>FS\<close> again on the record any run left,
  complete or failed, leaves that record as it is.
\<close>

theorem defaulting_idempotent:
  "apply_defaults (apply_defaults c mp) mp = apply_defaults c mp
   \<and> (\<forall>ext h. fs_result (FS ext c mp) = Inr h \<longrightarrow> fs_config (FS ext c mp) = apply_defaults c mp)
   \<and> (\<forall>ext. fs_config (FS ext (apply_defaults c mp) mp) = apply_defaults c mp)
   \<and> (\<forall>ext. fs_config (FS ext (fs_config (FS ext c mp)) mp) = fs_config (FS ext c mp))"
proof -
  have twice: "apply_defaults (apply_defaults c mp) mp = apply_defaults c mp"
    by (simp add: apply_defaults_def [of "apply_defaults c mp"] apply_defaults_fixed)
  have complete: "fs_config (FS ext c mp) = apply_defaults c mp"
    if "fs_result (FS ext c mp) = Inr h" for ext h
    by (rule FS_composed [OF that]) simp
  have again: "fs_config (FS ext (apply_defaults c mp) mp) = apply_defaults c mp" for ext
    using FS_config_stage [of ext "apply_defaults c mp" mp] twice
    by (auto simp: apply_defaults_fixed)
  from twice complete again FS_config_idempotent show ?thesis by blast
qed

theorem defaulting_idempotent_witness:
  "fs_result (FS all_succeed example_client ''/mnt/utahfs'')
     = Inr (BlockFilesystem
              (AppStorage
                 (Encryption
                    (Integrity
                       (SimpleBlock
                          (BufferedStorage
                             (Cache
                                (LocalWAL (B2 ''acct'' ''key'' ''bucket'' [])
                                   ''/mnt/.utahfs/wal'' 32768)
                                32768)))
                       ''secret'' ''/mnt/.utahfs/pin.json'')
                    ''secret''))
              12 32768)
   \<and> fs_config (FS all_succeed example_client ''/mnt/utahfs'')
       = apply_defaults example_client ''/mnt/utahfs''
   \<and> apply_defaults (apply_defaults example_client ''/mnt/utahfs'') ''/mnt/utahfs''
       = apply_defaults example_client ''/mnt/utahfs''
   \<and> fs_config (FS all_succeed (apply_defaults example_client ''/mnt/utahfs'') ''/mnt/utahfs'')
       = apply_defaults example_client ''/mnt/utahfs''"
  (is "?run = Inr ?h \<and> ?rest")
proof -
  have run: "?run = Inr ?h" by code_simp
  from defaulting_idempotent [of example_client "''/mnt/utahfs''"] run have ?rest
    by blast
  with run show ?thesis by (rule conjI)
qed

section \<open>Reading the file\<close>

text \<open>
  C10. \<open>ClientFromFile\<close> returns a record exactly when the file can be read and its
  contents unmarshal, and then it returns the unmarshalled record whatever its fields
  hold. It never returns one of the errors that \<open>FS\<close> and \<open>Store\<close> create for a missing
  password or a wrong provider selection: those arise only when \<open>FS\<close> is called.
\<close>

theorem ClientFromFile_no_validation:
  "(ClientFromFile ReadFile Unmarshal path = Inr parsed
      \<longleftrightarrow> (\<exists>raw. ReadFile path = Inr raw \<and> Unmarshal raw zero_Client = Inr parsed))
   \<and> ClientFromFile ReadFile Unmarshal path \<noteq> Inl MissingCredential
   \<and> ClientFromFile ReadFile Unmarshal path \<noteq> Inl NoProviderConfigured
   \<and> ClientFromFile ReadFile Unmarshal path \<noteq> Inl AmbiguousProvider"
  by (auto simp: ClientFromFile_def split: sum.splits)

theorem ClientFromFile_no_validation_witness:
  "ClientFromFile (\<lambda>path. Inr ''{}'') (\<lambda>raw parsed. Inr parsed) ''utahfs.yaml'' = Inr zero_Client
   \<and> Password zero_Client = []
   \<and> StorageProvider zero_Client = None
   \<and> fs_result (FS all_succeed zero_Client ''/mnt/utahfs'') = Inl NoProviderConfigured"
proof -
  have "\<exists>raw. (\<lambda>path. Inr ''{}'' :: string + string) ''utahfs.yaml'' = Inr raw
          \<and> (\<lambda>raw parsed. Inr parsed :: string + Client) raw zero_Client = Inr zero_Client"
    by simp
  with ClientFromFile_no_validation
         [of "\<lambda>path. Inr ''{}''" "\<lambda>raw parsed. Inr parsed" "''utahfs.yaml''" zero_Client]
  have parsed: "ClientFromFile (\<lambda>path. Inr ''{}'') (\<lambda>raw parsed. Inr parsed) ''utahfs.yaml''
      = Inr zero_Client"
    by blast
  have fields: "Password zero_Client = []" "StorageProvider zero_Client = None"
    by (simp_all add: zero_Client_def)
  have deferred: "fs_result (FS all_succeed zero_Client ''/mnt/utahfs'') = Inl NoProviderConfigured"
    by code_simp
  from parsed fields deferred show ?thesis by blast
qed

end
